theory Spec2Isabelle
  imports Main "HOL-Library.Sublist"
begin

section \<open>Python strings\<close>

text \<open>
  A Python \<open>str\<close> is modelled as a \<open>string\<close> whose characters are the code points
  below 256 (Latin-1); \<open>CHR 0xB0\<close> is the degree sign. On this range \<open>str.lower\<close>
  works character by character: it moves \<open>A\<close>..\<open>Z\<close> and the accented capitals
  \<open>0xC0\<close>..\<open>0xDE\<close> (the multiplication sign \<open>0xD7\<close> apart) up by 32 and leaves every
  other character alone.
\<close>

definition py_lower_char :: "char \<Rightarrow> char" where
  "py_lower_char c =
     (let n = (of_char c :: nat)
      in if (65 \<le> n \<and> n \<le> 90) \<or> (192 \<le> n \<and> n \<le> 222 \<and> n \<noteq> 215)
         then char_of (n + 32) else c)"

definition py_lower :: "string \<Rightarrow> string" where
  "py_lower s = map py_lower_char s"

text \<open>
  \<open>str.isspace\<close> on the same range: tab to carriage return, the four separators
  \<open>0x1C\<close>..\<open>0x1F\<close>, the space, NEL (\<open>0x85\<close>) and the no-break space (\<open>0xA0\<close>).
  \<open>str.strip()\<close> removes such characters from both ends.
\<close>

definition py_isspace :: "char \<Rightarrow> bool" where
  "py_isspace c =
     (let n = (of_char c :: nat)
      in (9 \<le> n \<and> n \<le> 13) \<or> (28 \<le> n \<and> n \<le> 32) \<or> n = 133 \<or> n = 160)"

definition py_strip :: "string \<Rightarrow> string" where
  "py_strip s = rev (dropWhile py_isspace (rev (dropWhile py_isspace s)))"

text \<open>
  \<open>sub in s\<close> on strings: does \<open>sub\<close> occur in \<open>s\<close> as a contiguous run.
  The empty string occurs in every string.
\<close>

fun py_startswith :: "string \<Rightarrow> string \<Rightarrow> bool" where
  "py_startswith s [] = True"
| "py_startswith [] (c # sub) = False"
| "py_startswith (d # s) (c # sub) = (d = c \<and> py_startswith s sub)"

fun py_in :: "string \<Rightarrow> string \<Rightarrow> bool" where
  "py_in sub [] = (sub = [])"
| "py_in sub (d # s) = (py_startswith (d # s) sub \<or> py_in sub s)"

section \<open>Enumerations (backend/models/enums.py)\<close>

datatype MessageType = USER | ASSISTANT | AGENT | SYSTEM

datatype SessionStatus = ACTIVE | INACTIVE | EXPIRED | ARCHIVED

datatype AgentResponseType = TIME | DATE | WEATHER | COMBINED | ERROR

text \<open>The \<open>.value\<close> of an \<open>AgentResponseType\<close> member: the lower-case strings of the enum.\<close>

fun AgentResponseType_value :: "AgentResponseType \<Rightarrow> string" where
  "AgentResponseType_value TIME = ''time''"
| "AgentResponseType_value DATE = ''date''"
| "AgentResponseType_value WEATHER = ''weather''"
| "AgentResponseType_value COMBINED = ''combined''"
| "AgentResponseType_value ERROR = ''error''"

section \<open>Python values, exceptions and \<open>repr\<close>\<close>

text \<open>
  The values a \<open>Dict[str, Any]\<close> of this program holds: strings and nested
  dictionaries. A dictionary keeps its keys in insertion order, so it is an association
  list.
\<close>

datatype pyval = PStr string | PDict "(string \<times> pyval) list"

text \<open>The exceptions the modelled code raises; \<open>exn_str\<close> is \<open>str(e)\<close>.\<close>

datatype py_exn =
    ValueError string
  | KeyError string
  | TypeError string
  | Exception string
  | ClientError string
  | HTTPException int string

definition hex_digit :: "nat \<Rightarrow> char" where
  "hex_digit n = ''0123456789abcdef'' ! (n mod 16)"

text \<open>
  \<open>repr\<close> of a string: single quotes, unless the string has a single quote and no
  double quote; the quote and the backslash are escaped, as are tab, newline, carriage
  return and the characters that are not printable (\<open>\xhh\<close>).
\<close>

definition py_repr_char :: "char \<Rightarrow> char \<Rightarrow> string" where
  "py_repr_char q c =
     (let n = (of_char c :: nat)
      in if c = q \<or> n = 92 then [CHR 0x5C, c]
         else if n = 9 then [CHR 0x5C, CHR ''t'']
         else if n = 10 then [CHR 0x5C, CHR ''n'']
         else if n = 13 then [CHR 0x5C, CHR ''r'']
         else if n < 32 \<or> n = 127 \<or> (128 \<le> n \<and> n \<le> 160) \<or> n = 173
         then [CHR 0x5C, CHR ''x'', hex_digit (n div 16), hex_digit n]
         else [c])"

definition py_repr_str :: "string \<Rightarrow> string" where
  "py_repr_str s =
     (let q = (if CHR 0x27 \<in> set s \<and> CHR 0x22 \<notin> set s then CHR 0x22 else CHR 0x27)
      in [q] @ concat (map (py_repr_char q) s) @ [q])"

text \<open>\<open>sep.join(parts)\<close>.\<close>

fun py_join :: "string \<Rightarrow> string list \<Rightarrow> string" where
  "py_join sep [] = []"
| "py_join sep [p] = p"
| "py_join sep (p # ps) = p @ sep @ py_join sep ps"

text \<open>\<open>repr\<close> (and \<open>str\<close>) of a dictionary: \<open>{'k': v, ...}\<close>.\<close>

fun py_repr :: "pyval \<Rightarrow> string" where
  "py_repr (PStr s) = py_repr_str s"
| "py_repr (PDict kvs) =
     ''{'' @ py_join '', '' (map (\<lambda>kv. py_repr_str (fst kv) @ '': '' @ py_repr (snd kv)) kvs) @ ''}''"

text \<open>\<open>str(v)\<close>, which is what an f-string field \<open>{v}\<close> inserts.\<close>

fun py_str :: "pyval \<Rightarrow> string" where
  "py_str (PStr s) = s"
| "py_str (PDict kvs) = py_repr (PDict kvs)"

text \<open>\<open>str(n)\<close> of an integer, in decimal.\<close>

fun py_str_nat :: "nat \<Rightarrow> string" where
  "py_str_nat n =
     (if n < 10 then [hex_digit n] else py_str_nat (n div 10) @ [hex_digit (n mod 10)])"

definition py_str_int :: "int \<Rightarrow> string" where
  "py_str_int i = (if i < 0 then ''-'' @ py_str_nat (nat (- i)) else py_str_nat (nat i))"

fun exn_str :: "py_exn \<Rightarrow> string" where
  "exn_str (ValueError m) = m"
| "exn_str (KeyError k) = py_repr_str k"
| "exn_str (TypeError m) = m"
| "exn_str (Exception m) = m"
| "exn_str (ClientError m) = m"
| "exn_str (HTTPException status_code detail) = py_str_int status_code @ '': '' @ detail"

text \<open>\<open>d[k]\<close> raises \<open>KeyError\<close> on a missing key; \<open>d.get(k)\<close> gives \<open>None\<close>.\<close>

definition py_getitem :: "(string \<times> pyval) list \<Rightarrow> string \<Rightarrow> py_exn + pyval" where
  "py_getitem d k = (case map_of d k of None \<Rightarrow> Inl (KeyError k) | Some v \<Rightarrow> Inr v)"

definition py_get :: "(string \<times> pyval) list \<Rightarrow> string \<Rightarrow> pyval option" where
  "py_get d k = map_of d k"

text \<open>\<open>v[k]\<close> on a value: a dictionary is looked up, a string cannot be indexed by a string.\<close>

fun py_subscript :: "pyval \<Rightarrow> string \<Rightarrow> py_exn + pyval" where
  "py_subscript (PDict d) k = py_getitem d k"
| "py_subscript (PStr s) k = Inl (TypeError ''string indices must be integers'')"

text \<open>Truthiness of the result of \<open>d.get(k)\<close>: \<open>None\<close>, \<open>''\<close> and \<open>{}\<close> are false.\<close>

fun py_truthy :: "pyval option \<Rightarrow> bool" where
  "py_truthy None = False"
| "py_truthy (Some (PStr s)) = (s \<noteq> [])"
| "py_truthy (Some (PDict d)) = (d \<noteq> [])"

text \<open>Sequencing of computations that may raise.\<close>

definition bind_exn :: "py_exn + 'a \<Rightarrow> ('a \<Rightarrow> py_exn + 'b) \<Rightarrow> py_exn + 'b" where
  "bind_exn m f = (case m of Inl e \<Rightarrow> Inl e | Inr x \<Rightarrow> f x)"

text \<open>
  \<open>xs[i:]\<close>: a negative start counts from the end, and any start is clamped to the
  list. In particular \<open>xs[-0:]\<close> is \<open>xs[0:]\<close>, the whole list.
\<close>

definition py_slice_from :: "int \<Rightarrow> 'a list \<Rightarrow> 'a list" where
  "py_slice_from i xs =
     (let n = int (length xs);
          j = (if i < 0 then max 0 (n + i) else min i n)
      in drop (nat j) xs)"

section \<open>Messages and sessions (backend/models)\<close>

text \<open>
  A \<open>datetime\<close> is the number of microseconds since the epoch, the resolution the
  type has. \<open>total_seconds() > h * 3600\<close> on a difference of two of them is then
  the comparison of the difference with \<open>h * 3600 * 1000000\<close>.
\<close>

type_synonym datetime = int

record Message =
  message_id :: string
  m_session_id :: string
  content :: string
  message_type :: MessageType
  m_timestamp :: datetime
  metadata :: "(string \<times> pyval) list"

text \<open>\<open>Message.__post_init__\<close>, run by every construction of a message.\<close>

definition Message_post_init :: "datetime \<Rightarrow> Message \<Rightarrow> py_exn + Message" where
  "Message_post_init now m =
     (if m_session_id m = [] then Inl (ValueError ''session_id is required'')
      else if py_strip (content m) = [] then Inl (ValueError ''content cannot be empty'')
      else if m_timestamp m > now then Inl (ValueError ''timestamp cannot be in the future'')
      else if length (content m) > 10000
      then Inl (ValueError ''content exceeds maximum length of 10000 characters'')
      else Inr m)"

record Session =
  session_id :: string
  user_id :: string
  created_at :: datetime
  last_activity :: datetime
  knowledge_base_id :: "string option"
  conversation_history :: "Message list"
  status :: SessionStatus

text \<open>\<open>Session.__post_init__\<close>.\<close>

definition Session_post_init :: "datetime \<Rightarrow> Session \<Rightarrow> py_exn + Session" where
  "Session_post_init now s =
     (if user_id s = [] then Inl (ValueError ''user_id is required'')
      else if created_at s > now then Inl (ValueError ''created_at cannot be in the future'')
      else if last_activity s < created_at s
      then Inl (ValueError ''last_activity cannot be before created_at'')
      else Inr s)"

text \<open>\<open>Session.add_message\<close>.\<close>

definition add_message :: "datetime \<Rightarrow> Session \<Rightarrow> Message \<Rightarrow> py_exn + Session" where
  "add_message now s message =
     (if m_session_id message \<noteq> session_id s
      then Inl (ValueError ''Message session_id must match session session_id'')
      else Inr (s\<lparr>conversation_history := conversation_history s @ [message],
                  last_activity := now\<rparr>))"

text \<open>\<open>Session.is_expired\<close>.\<close>

definition is_expired :: "datetime \<Rightarrow> Session \<Rightarrow> int \<Rightarrow> bool" where
  "is_expired now s timeout_hours \<longleftrightarrow> now - last_activity s > timeout_hours * 3600 * 1000000"

text \<open>
  A stored item is the dictionary \<open>Session.to_dict\<close> writes, which holds exactly the
  fields of the session; it is modelled by the \<open>Session\<close> record itself.
  \<open>Session.from_dict\<close> rebuilds every message and then the session, so it runs the
  checks of both constructors and raises the first error.
\<close>

fun all_or_raise :: "('a \<Rightarrow> py_exn + 'a) \<Rightarrow> 'a list \<Rightarrow> py_exn + 'a list" where
  "all_or_raise f [] = Inr []"
| "all_or_raise f (x # xs) =
     (case f x of
        Inl e \<Rightarrow> Inl e
      | Inr y \<Rightarrow> (case all_or_raise f xs of Inl e \<Rightarrow> Inl e | Inr ys \<Rightarrow> Inr (y # ys)))"

definition Session_from_dict :: "datetime \<Rightarrow> Session \<Rightarrow> py_exn + Session" where
  "Session_from_dict now data =
     (case all_or_raise (Message_post_init now) (conversation_history data) of
        Inl e \<Rightarrow> Inl e
      | Inr msgs \<Rightarrow> Session_post_init now (data\<lparr>conversation_history := msgs\<rparr>))"

section \<open>The session table (the storage behind SessionService)\<close>

text \<open>
  The DynamoDB table holds at most one item per \<open>session_id\<close>, its key. Whether a
  request to the table fails is not decided by the program: \<open>raises\<close> is the list of
  the outcomes of the coming requests, \<open>True\<close> for a request that raises
  \<open>ClientError\<close>; when the list is used up, requests succeed.
\<close>

record Table =
  items :: "Session list"
  raises :: "bool list"

definition next_raises :: "Table \<Rightarrow> bool \<times> Table" where
  "next_raises t = (case raises t of [] \<Rightarrow> (False, t) | b # bs \<Rightarrow> (b, t\<lparr>raises := bs\<rparr>))"

definition put_item :: "Table \<Rightarrow> Session \<Rightarrow> Table \<times> (py_exn + unit)" where
  "put_item t item =
     (let (r, t') = next_raises t
      in if r then (t', Inl (ClientError ''PutItem''))
         else (t'\<lparr>items := item # filter (\<lambda>i. session_id i \<noteq> session_id item) (items t')\<rparr>,
               Inr ()))"

definition get_item :: "Table \<Rightarrow> string \<Rightarrow> Table \<times> (py_exn + Session option)" where
  "get_item t key =
     (let (r, t') = next_raises t
      in if r then (t', Inl (ClientError ''GetItem''))
         else (t', Inr (find (\<lambda>i. session_id i = key) (items t'))))"

text \<open>The scan with the filter \<open>user_id = :user_id\<close>.\<close>

definition scan :: "Table \<Rightarrow> string \<Rightarrow> Table \<times> (py_exn + Session list)" where
  "scan t uid =
     (let (r, t') = next_raises t
      in if r then (t', Inl (ClientError ''Scan''))
         else (t', Inr (filter (\<lambda>i. user_id i = uid) (items t'))))"

section \<open>Session Store Facade (backend/services/session_service.py)\<close>

text \<open>
  \<open>table\<close> is \<open>None\<close> when the DynamoDB client could not be initialised. Every
  operation takes the service and gives it back, with the table as the operation left
  it, also when it raises. An operation reads the clock once (\<open>now\<close>).
\<close>

record SessionService =
  table :: "Table option"
  session_timeout_hours :: int
  max_conversation_history :: int

text \<open>
  \<open>_store_session\<close>: nothing is stored without a table; an error of the table is
  raised again. The \<open>ttl\<close> attribute that is written with the item is left out.
\<close>

definition store_session :: "SessionService \<Rightarrow> Session \<Rightarrow> SessionService \<times> (py_exn + unit)" where
  "store_session svc session =
     (case table svc of
        None \<Rightarrow> (svc, Inr ())
      | Some t \<Rightarrow> (let (t', r) = put_item t session in (svc\<lparr>table := Some t'\<rparr>, r)))"

text \<open>\<open>_get_session_from_db\<close>: an error of the table is logged and becomes \<open>None\<close>.\<close>

definition get_session_from_db :: "SessionService \<Rightarrow> string \<Rightarrow> SessionService \<times> Session option" where
  "get_session_from_db svc sid =
     (case table svc of
        None \<Rightarrow> (svc, None)
      | Some t \<Rightarrow>
          (let (t', r) = get_item t sid
           in (svc\<lparr>table := Some t'\<rparr>, case r of Inl e \<Rightarrow> None | Inr item \<Rightarrow> item)))"

text \<open>\<open>_get_user_sessions_from_db\<close>: an error of the table becomes the empty list.\<close>

definition get_user_sessions_from_db :: "SessionService \<Rightarrow> string \<Rightarrow> SessionService \<times> Session list" where
  "get_user_sessions_from_db svc uid =
     (case table svc of
        None \<Rightarrow> (svc, [])
      | Some t \<Rightarrow>
          (let (t', r) = scan t uid
           in (svc\<lparr>table := Some t'\<rparr>, case r of Inl e \<Rightarrow> [] | Inr found \<Rightarrow> found)))"

text \<open>
  \<open>create_session\<close>. The new session takes \<open>new_id\<close>, the value of \<open>uuid4()\<close>. The
  \<open>try\<close> block is \<open>create_session_try\<close>; its handler raises \<open>HTTPException\<close>.
\<close>

definition create_session_try ::
  "SessionService \<Rightarrow> datetime \<Rightarrow> string \<Rightarrow> string \<Rightarrow> string option
     \<Rightarrow> SessionService \<times> (py_exn + Session)" where
  "create_session_try svc now new_id uid kb_id =
     (case Session_post_init now
             \<lparr>session_id = new_id, user_id = uid, created_at = now, last_activity = now,
              knowledge_base_id = kb_id, conversation_history = [], status = ACTIVE\<rparr> of
        Inl e \<Rightarrow> (svc, Inl e)
      | Inr session \<Rightarrow>
          (case store_session svc session of
             (svc', Inl e) \<Rightarrow> (svc', Inl e)
           | (svc', Inr u) \<Rightarrow> (svc', Inr session)))"

definition create_session ::
  "SessionService \<Rightarrow> datetime \<Rightarrow> string \<Rightarrow> string \<Rightarrow> string option
     \<Rightarrow> SessionService \<times> (py_exn + Session)" where
  "create_session svc now new_id uid kb_id =
     (case create_session_try svc now new_id uid kb_id of
        (svc', Inl e) \<Rightarrow> (svc', Inl (HTTPException 500 ''Failed to create session''))
      | (svc', Inr session) \<Rightarrow> (svc', Inr session))"

text \<open>\<open>get_session\<close>: the \<open>try\<close> block, then the handler, which returns \<open>None\<close>.\<close>

definition get_session_try ::
  "SessionService \<Rightarrow> datetime \<Rightarrow> string \<Rightarrow> string
     \<Rightarrow> SessionService \<times> (py_exn + Session option)" where
  "get_session_try svc now sid uid =
     (case get_session_from_db svc sid of
        (svc1, None) \<Rightarrow> (svc1, Inr None)
      | (svc1, Some session_data) \<Rightarrow>
          (case Session_from_dict now session_data of
             Inl e \<Rightarrow> (svc1, Inl e)
           | Inr session \<Rightarrow>
               if user_id session \<noteq> uid then (svc1, Inr None)
               else if is_expired now session (session_timeout_hours svc1)
               then (case store_session svc1 (session\<lparr>status := EXPIRED\<rparr>) of
                       (svc2, Inl e) \<Rightarrow> (svc2, Inl e)
                     | (svc2, Inr u) \<Rightarrow> (svc2, Inr None))
               else (svc1, Inr (Some session))))"

definition get_session ::
  "SessionService \<Rightarrow> datetime \<Rightarrow> string \<Rightarrow> string
     \<Rightarrow> SessionService \<times> (py_exn + Session option)" where
  "get_session svc now sid uid =
     (case get_session_try svc now sid uid of
        (svc', Inl e) \<Rightarrow> (svc', Inr None)
      | (svc', Inr found) \<Rightarrow> (svc', Inr found))"

text \<open>\<open>update_session\<close>.\<close>

definition update_session :: "SessionService \<Rightarrow> Session \<Rightarrow> SessionService \<times> (py_exn + bool)" where
  "update_session svc session =
     (case store_session svc session of
        (svc', Inl e) \<Rightarrow> (svc', Inr False)
      | (svc', Inr u) \<Rightarrow> (svc', Inr True))"

text \<open>
  \<open>add_message_to_session\<close>: load, set the message's \<open>session_id\<close>, append, trim to
  the last \<open>max_conversation_history\<close> messages, store.
\<close>

definition add_message_to_session_try ::
  "SessionService \<Rightarrow> datetime \<Rightarrow> string \<Rightarrow> string \<Rightarrow> Message
     \<Rightarrow> SessionService \<times> (py_exn + bool)" where
  "add_message_to_session_try svc now sid uid message =
     (case get_session svc now sid uid of
        (svc1, Inl e) \<Rightarrow> (svc1, Inl e)
      | (svc1, Inr None) \<Rightarrow> (svc1, Inr False)
      | (svc1, Inr (Some session)) \<Rightarrow>
          (case add_message now session (message\<lparr>m_session_id := sid\<rparr>) of
             Inl e \<Rightarrow> (svc1, Inl e)
           | Inr session1 \<Rightarrow>
               (let session2 =
                      (if int (length (conversation_history session1)) > max_conversation_history svc1
                       then session1\<lparr>conversation_history :=
                              py_slice_from (- max_conversation_history svc1)
                                (conversation_history session1)\<rparr>
                       else session1)
                in update_session svc1 session2)))"

definition add_message_to_session ::
  "SessionService \<Rightarrow> datetime \<Rightarrow> string \<Rightarrow> string \<Rightarrow> Message
     \<Rightarrow> SessionService \<times> (py_exn + bool)" where
  "add_message_to_session svc now sid uid message =
     (case add_message_to_session_try svc now sid uid message of
        (svc', Inl e) \<Rightarrow> (svc', Inr False)
      | (svc', Inr ok) \<Rightarrow> (svc', Inr ok))"

text \<open>
  \<open>list_user_sessions\<close>: the loop over the scanned items, then the sort by
  \<open>last_activity\<close> with \<open>reverse=True\<close> (reverse, sort stably, reverse).
\<close>

fun list_user_sessions_loop ::
  "SessionService \<Rightarrow> datetime \<Rightarrow> bool \<Rightarrow> Session list \<Rightarrow> Session list
     \<Rightarrow> SessionService \<times> (py_exn + Session list)" where
  "list_user_sessions_loop svc now active_only [] sessions = (svc, Inr sessions)"
| "list_user_sessions_loop svc now active_only (session_data # rest) sessions =
     (case Session_from_dict now session_data of
        Inl e \<Rightarrow> (svc, Inl e)
      | Inr session \<Rightarrow>
          (case (if is_expired now session (session_timeout_hours svc)
                 then (case store_session svc (session\<lparr>status := EXPIRED\<rparr>) of
                         (svc', Inl e) \<Rightarrow> (svc', Inl e)
                       | (svc', Inr u) \<Rightarrow> (svc', Inr (session\<lparr>status := EXPIRED\<rparr>)))
                 else (svc, Inr session)) of
             (svc', Inl e) \<Rightarrow> (svc', Inl e)
           | (svc', Inr session') \<Rightarrow>
               if active_only \<and> status session' \<noteq> ACTIVE
               then list_user_sessions_loop svc' now active_only rest sessions
               else list_user_sessions_loop svc' now active_only rest (sessions @ [session'])))"

definition list_user_sessions_try ::
  "SessionService \<Rightarrow> datetime \<Rightarrow> string \<Rightarrow> bool \<Rightarrow> SessionService \<times> (py_exn + Session list)" where
  "list_user_sessions_try svc now uid active_only =
     (case get_user_sessions_from_db svc uid of
        (svc1, sessions_data) \<Rightarrow>
          (case list_user_sessions_loop svc1 now active_only sessions_data [] of
             (svc2, Inl e) \<Rightarrow> (svc2, Inl e)
           | (svc2, Inr sessions) \<Rightarrow> (svc2, Inr (rev (sort_key last_activity (rev sessions))))))"

definition list_user_sessions ::
  "SessionService \<Rightarrow> datetime \<Rightarrow> string \<Rightarrow> bool \<Rightarrow> SessionService \<times> (py_exn + Session list)" where
  "list_user_sessions svc now uid active_only =
     (case list_user_sessions_try svc now uid active_only of
        (svc', Inl e) \<Rightarrow> (svc', Inr [])
      | (svc', Inr sessions) \<Rightarrow> (svc', Inr sessions))"

text \<open>\<open>delete_session\<close>: the session is marked \<open>ARCHIVED\<close>.\<close>

definition delete_session_try ::
  "SessionService \<Rightarrow> datetime \<Rightarrow> string \<Rightarrow> string \<Rightarrow> SessionService \<times> (py_exn + bool)" where
  "delete_session_try svc now sid uid =
     (case get_session svc now sid uid of
        (svc1, Inl e) \<Rightarrow> (svc1, Inl e)
      | (svc1, Inr None) \<Rightarrow> (svc1, Inr False)
      | (svc1, Inr (Some session)) \<Rightarrow> update_session svc1 (session\<lparr>status := ARCHIVED\<rparr>))"

definition delete_session ::
  "SessionService \<Rightarrow> datetime \<Rightarrow> string \<Rightarrow> string \<Rightarrow> SessionService \<times> (py_exn + bool)" where
  "delete_session svc now sid uid =
     (case delete_session_try svc now sid uid of
        (svc', Inl e) \<Rightarrow> (svc', Inr False)
      | (svc', Inr ok) \<Rightarrow> (svc', Inr ok))"

section \<open>Command classifier (IntegrationService._classify_command)\<close>

text \<open>
  The two vocabularies of \<open>IntegrationService.__init__\<close>. They are Python sets; the
  classifier only asks whether any member occurs in the message, so the order in which
  the members are listed here does not matter to it.
\<close>

definition agent_commands :: "string list" where
  "agent_commands =
     [''time'', ''current_time'', ''get_time'',
      ''date'', ''current_date'', ''get_date'',
      ''weather'', ''current_weather'', ''get_weather'',
      ''all'', ''all_info'', ''everything'']"

definition knowledge_base_indicators :: "string list" where
  "knowledge_base_indicators = [''kb:'', ''knowledge:'', ''search:'', ''find:'', ''lookup:'']"

datatype command_type = Agent | Knowledge_base | General_ai

definition classify_command :: "string \<Rightarrow> command_type" where
  "classify_command user_message =
     (let message_lower = py_strip (py_lower user_message)
      in if list_ex (\<lambda>cmd. py_in cmd message_lower) agent_commands then Agent
         else if list_ex (\<lambda>indicator. py_in indicator message_lower) knowledge_base_indicators
         then Knowledge_base
         else General_ai)"

section \<open>Tool agent: command extraction and dispatch\<close>

text \<open>
  The loop of \<open>_handle_agent_command\<close> that picks the command:
  \<^verbatim>\<open>for cmd in self.agent_commands: if cmd in message_lower: agent_command = cmd; break\<close>.
  \<open>agent_commands\<close> is a set of strings, and the order in which a Python set of strings
  is iterated is not fixed by the program (string hashes change from process to
  process). The order of one run is the parameter \<open>iteration_order\<close>, a list of the
  members of the set.
\<close>

fun extract_loop :: "string list \<Rightarrow> string \<Rightarrow> string \<Rightarrow> string" where
  "extract_loop [] message_lower agent_command = agent_command"
| "extract_loop (cmd # cmds) message_lower agent_command =
     (if py_in cmd message_lower then cmd else extract_loop cmds message_lower agent_command)"

definition extract_agent_command :: "string list \<Rightarrow> string \<Rightarrow> string" where
  "extract_agent_command iteration_order user_message =
     (let message_lower = py_strip (py_lower user_message)
      in extract_loop iteration_order message_lower ''all'')"

text \<open>
  \<open>AgentService.invoke_agent\<close> normalises the command and chooses what to ask the
  Birmingham agent.
\<close>

datatype agent_call = Get_current_time | Get_current_date | Get_weather | Get_all_info | Unknown_command

definition invoke_agent_call :: "string \<Rightarrow> agent_call" where
  "invoke_agent_call command0 =
     (let command = py_strip (py_lower command0)
      in if command \<in> set [''time'', ''current_time'', ''get_time''] then Get_current_time
         else if command \<in> set [''date'', ''current_date'', ''get_date''] then Get_current_date
         else if command \<in> set [''weather'', ''current_weather'', ''get_weather''] then Get_weather
         else if command \<in> set [''all'', ''all_info'', ''everything''] then Get_all_info
         else Unknown_command)"

record AgentResponse =
  agent_id :: string
  response_type :: AgentResponseType
  data :: "(string \<times> pyval) list"
  location :: string
  r_timestamp :: datetime

definition is_successful :: "AgentResponse \<Rightarrow> bool" where
  "is_successful r \<longleftrightarrow> response_type r \<noteq> ERROR"

text \<open>
  What the agent answers is outside the program: \<open>answers\<close> gives the
  \<open>AgentResponse\<close> that each of the four requests of \<open>invoke_agent\<close> ends with. An
  unknown command is answered by \<open>invoke_agent\<close> itself, with an error response.
\<close>

definition invoke_agent :: "(agent_call \<Rightarrow> AgentResponse) \<Rightarrow> datetime \<Rightarrow> string \<Rightarrow> AgentResponse" where
  "invoke_agent answers now command =
     (case invoke_agent_call command of
        Unknown_command \<Rightarrow>
          \<lparr>agent_id = ''birmingham_agent'', response_type = ERROR,
           data = [(''error_message'',
                    PStr (''Unknown command: '' @ py_strip (py_lower command)
                          @ ''. Available commands: time, date, weather, all''))],
           location = ''Birmingham, Alabama'', r_timestamp = now\<rparr>
      | c \<Rightarrow> answers c)"

section \<open>Formatting an agent response (IntegrationService._format_agent_response)\<close>

definition combined_time_part :: "(string \<times> pyval) list \<Rightarrow> py_exn + string list" where
  "combined_time_part d =
     (if py_truthy (py_get d ''time'')
      then bind_exn (py_getitem d ''time'') (\<lambda>t1. bind_exn (py_subscript t1 ''time'') (\<lambda>a.
           bind_exn (py_getitem d ''time'') (\<lambda>t2. bind_exn (py_subscript t2 ''timezone'') (\<lambda>b.
             Inr [''Time: '' @ py_str a @ '' ('' @ py_str b @ '')'']))))
      else Inr [])"

definition combined_date_part :: "(string \<times> pyval) list \<Rightarrow> py_exn + string list" where
  "combined_date_part d =
     (if py_truthy (py_get d ''date'')
      then bind_exn (py_getitem d ''date'') (\<lambda>t1. bind_exn (py_subscript t1 ''date'') (\<lambda>a.
           bind_exn (py_getitem d ''date'') (\<lambda>t2. bind_exn (py_subscript t2 ''day_of_week'') (\<lambda>b.
             Inr [''Date: '' @ py_str a @ '' ('' @ py_str b @ '')'']))))
      else Inr [])"

definition combined_weather_part :: "(string \<times> pyval) list \<Rightarrow> py_exn + string list" where
  "combined_weather_part d =
     (if py_truthy (py_get d ''weather'')
      then bind_exn (py_getitem d ''weather'') (\<lambda>weather.
           bind_exn (py_subscript weather ''condition'') (\<lambda>c.
           bind_exn (py_subscript weather ''temperature'') (\<lambda>t.
             let weather_str = ''Weather: '' @ py_str c @ '', '' @ py_str t
             in (case weather of
                   PStr s \<Rightarrow> Inl (TypeError ''string indices must be integers'')
                 | PDict w \<Rightarrow>
                     if py_truthy (py_get w ''humidity'')
                     then bind_exn (py_getitem w ''humidity'') (\<lambda>h.
                            Inr [weather_str @ '', Humidity: '' @ py_str h])
                     else Inr [weather_str]))))
      else Inr [])"

text \<open>
  The function compares \<open>response_type.value\<close> with the upper-case strings
  \<open>"TIME"\<close>, \<open>"DATE"\<close>, \<open>"WEATHER"\<close> and \<open>"COMBINED"\<close>, as written in the source.
\<close>

definition format_agent_response :: "AgentResponse \<Rightarrow> py_exn + string" where
  "format_agent_response agent_response =
     (let v = AgentResponseType_value (response_type agent_response);
          d = data agent_response
      in if v = ''TIME'' then
           bind_exn (py_getitem d ''time'') (\<lambda>t. bind_exn (py_getitem d ''timezone'') (\<lambda>z.
             Inr (''Current time in '' @ location agent_response @ '': '' @ py_str t
                  @ '' ('' @ py_str z @ '')'')))
         else if v = ''DATE'' then
           bind_exn (py_getitem d ''date'') (\<lambda>t. bind_exn (py_getitem d ''day_of_week'') (\<lambda>w.
             Inr (''Current date in '' @ location agent_response @ '': '' @ py_str t
                  @ '' ('' @ py_str w @ '')'')))
         else if v = ''WEATHER'' then
           bind_exn (py_getitem d ''condition'') (\<lambda>c. bind_exn (py_getitem d ''temperature'') (\<lambda>t.
             let weather_info = ''Weather in '' @ location agent_response @ '': '' @ py_str c
                                @ '', '' @ py_str t
             in if py_truthy (py_get d ''humidity'')
                then bind_exn (py_getitem d ''humidity'') (\<lambda>h.
                       Inr (weather_info @ '', Humidity: '' @ py_str h))
                else Inr weather_info))
         else if v = ''COMBINED'' then
           bind_exn (combined_time_part d) (\<lambda>p1. bind_exn (combined_date_part d) (\<lambda>p2.
           bind_exn (combined_weather_part d) (\<lambda>p3.
             Inr (''Birmingham, Alabama Information:'' @ [CHR 0x0A]
                  @ py_join [CHR 0x0A] (p1 @ p2 @ p3)))))
         else Inr (py_str (PDict d)))"

section \<open>Response fragments\<close>

text \<open>
  The dictionaries sent to the caller. \<open>f_streaming\<close> says that the key
  \<open>streaming\<close> is there (it is then \<open>True\<close>); \<open>f_error_type\<close> is the key
  \<open>error_type\<close>; \<open>f_agent_data\<close> is \<open>metadata.agent_data\<close>, the agent response that
  \<open>to_dict\<close> wrote.
\<close>

record Fragment =
  f_type :: string
  f_content :: string
  f_timestamp :: datetime
  f_streaming :: bool
  f_error_type :: "string option"
  f_agent_data :: "AgentResponse option"

definition create_status_response :: "datetime \<Rightarrow> string \<Rightarrow> Fragment" where
  "create_status_response now message =
     \<lparr>f_type = ''status'', f_content = message, f_timestamp = now, f_streaming = False,
      f_error_type = None, f_agent_data = None\<rparr>"

definition create_agent_response :: "datetime \<Rightarrow> string \<Rightarrow> AgentResponse \<Rightarrow> Fragment" where
  "create_agent_response now content' agent_data =
     \<lparr>f_type = ''agent_response'', f_content = content', f_timestamp = now, f_streaming = False,
      f_error_type = None, f_agent_data = Some agent_data\<rparr>"

text \<open>\<open>IntegrationErrorHandler.create_error_response\<close>, called without keyword arguments.\<close>

definition create_error_response :: "datetime \<Rightarrow> string \<Rightarrow> string \<Rightarrow> Fragment" where
  "create_error_response now message error_type =
     \<lparr>f_type = ''error'', f_content = message, f_timestamp = now, f_streaming = False,
      f_error_type = Some error_type, f_agent_data = None\<rparr>"

section \<open>Integration orchestrator (backend/services/integration_service.py)\<close>

text \<open>
  An asynchronous generator is modelled by what it does when it is run to its end: the
  service as it leaves it, the fragments it yields, in order, and the exception it ends
  with, if any. One run reads the clock once (\<open>now\<close>).
\<close>

type_synonym run = "SessionService \<times> Fragment list \<times> py_exn option"

text \<open>
  The body of \<open>_handle_agent_command\<close>. \<open>new_message_id\<close> is the \<open>uuid4()\<close> of the
  stored message. The result of \<open>add_message_to_session\<close> is not looked at.
\<close>

definition handle_agent_command ::
  "string list \<Rightarrow> (agent_call \<Rightarrow> AgentResponse) \<Rightarrow> datetime \<Rightarrow> string
     \<Rightarrow> SessionService \<Rightarrow> Session \<Rightarrow> string \<Rightarrow> string \<Rightarrow> run" where
  "handle_agent_command iteration_order answers now new_message_id svc session user_message uid =
     (let contacting = create_status_response now ''Contacting Birmingham agent...'';
          agent_command = extract_agent_command iteration_order user_message;
          agent_response = invoke_agent answers now agent_command
      in if is_successful agent_response then
           (case format_agent_response agent_response of
              Inl e \<Rightarrow> (svc, [contacting], Some e)
            | Inr formatted_response \<Rightarrow>
                (case Message_post_init now
                        \<lparr>message_id = new_message_id, m_session_id = session_id session,
                         content = formatted_response, message_type = AGENT, m_timestamp = now,
                         metadata =
                           [(''agent_id'', PStr (agent_id agent_response)),
                            (''response_type'',
                             PStr (AgentResponseType_value (response_type agent_response))),
                            (''location'', PStr (location agent_response))]\<rparr> of
                   Inl e \<Rightarrow> (svc, [contacting], Some e)
                 | Inr agent_msg \<Rightarrow>
                     (case add_message_to_session svc now (session_id session) uid agent_msg of
                        (svc', Inl e) \<Rightarrow> (svc', [contacting], Some e)
                      | (svc', Inr ok) \<Rightarrow>
                          (svc',
                           [contacting, create_agent_response now formatted_response agent_response],
                           None))))
         else
           (svc,
            [contacting,
             create_error_response now
               (''Agent error: '' @
                (case py_get (data agent_response) ''error_message'' of
                   None \<Rightarrow> ''Unknown error'' | Some v \<Rightarrow> py_str v))
               ''agent_error''],
            None))"

text \<open>\<open>_get_or_create_session\<close>; \<open>new_session_id\<close> is the \<open>uuid4()\<close> of a new session.\<close>

definition get_or_create_session_try ::
  "SessionService \<Rightarrow> datetime \<Rightarrow> string \<Rightarrow> string \<Rightarrow> string \<Rightarrow> string option
     \<Rightarrow> SessionService \<times> (py_exn + Session option)" where
  "get_or_create_session_try svc now new_session_id sid uid kb_id =
     (case get_session svc now sid uid of
        (svc1, Inl e) \<Rightarrow> (svc1, Inl e)
      | (svc1, Inr None) \<Rightarrow>
          (case create_session svc1 now new_session_id uid kb_id of
             (svc2, Inl e) \<Rightarrow> (svc2, Inl e)
           | (svc2, Inr session) \<Rightarrow> (svc2, Inr (Some session)))
      | (svc1, Inr (Some session)) \<Rightarrow>
          (case kb_id of
             None \<Rightarrow> (svc1, Inr (Some session))
           | Some kb \<Rightarrow>
               if kb \<noteq> [] \<and> knowledge_base_id session \<noteq> Some kb
               then (case update_session svc1 (session\<lparr>knowledge_base_id := Some kb\<rparr>) of
                       (svc2, Inl e) \<Rightarrow> (svc2, Inl e)
                     | (svc2, Inr ok) \<Rightarrow>
                         (svc2, Inr (Some (session\<lparr>knowledge_base_id := Some kb\<rparr>))))
               else (svc1, Inr (Some session))))"

definition get_or_create_session ::
  "SessionService \<Rightarrow> datetime \<Rightarrow> string \<Rightarrow> string \<Rightarrow> string \<Rightarrow> string option
     \<Rightarrow> SessionService \<times> Session option" where
  "get_or_create_session svc now new_session_id sid uid kb_id =
     (case get_or_create_session_try svc now new_session_id sid uid kb_id of
        (svc', Inl e) \<Rightarrow> (svc', None)
      | (svc', Inr found) \<Rightarrow> (svc', found))"

text \<open>
  The body of \<open>process_user_command\<close>. The three handlers it iterates over are the
  parameter \<open>handlers\<close>: for each command type, the run of the handler on the service,
  the session, the message and the user. \<open>new_message_id\<close> is the \<open>uuid4()\<close> of the
  user's message.
\<close>

definition process_user_command ::
  "(command_type \<Rightarrow> SessionService \<Rightarrow> Session \<Rightarrow> string \<Rightarrow> string \<Rightarrow> run)
     \<Rightarrow> SessionService \<Rightarrow> datetime \<Rightarrow> string \<Rightarrow> string
     \<Rightarrow> string \<Rightarrow> string \<Rightarrow> string \<Rightarrow> string option \<Rightarrow> run" where
  "process_user_command handlers svc now new_session_id new_message_id
       sid user_message uid kb_id =
     (case get_or_create_session svc now new_session_id sid uid kb_id of
        (svc1, None) \<Rightarrow>
          (svc1,
           [create_error_response now ''Failed to create or retrieve session'' ''general_error''],
           None)
      | (svc1, Some session) \<Rightarrow>
          (case Message_post_init now
                  \<lparr>message_id = new_message_id, m_session_id = sid, content = user_message,
                   message_type = USER, m_timestamp = now,
                   metadata = [(''user_id'', PStr uid)]\<rparr> of
             Inl e \<Rightarrow> (svc1, [], Some e)
           | Inr user_msg \<Rightarrow>
               (case add_message_to_session svc1 now sid uid user_msg of
                  (svc2, Inl e) \<Rightarrow> (svc2, [], Some e)
                | (svc2, Inr ok) \<Rightarrow>
                    (let command_type = classify_command user_message
                     in case handlers command_type svc2 session user_message uid of
                          (svc3, responses, raised) \<Rightarrow>
                            (svc3,
                             create_status_response now ''Processing your request...'' # responses,
                             raised)))))"

section \<open>Circuit breaker (backend/middleware/integration_error_handling.py)\<close>

datatype breaker_state = CLOSED | OPEN | HALF_OPEN

record CircuitBreaker =
  failure_threshold :: int
  recovery_timeout :: int
  failure_count :: int
  last_failure_time :: "datetime option"
  state :: breaker_state

text \<open>\<open>CircuitBreaker.__init__\<close>.\<close>

definition CircuitBreaker_init :: "int \<Rightarrow> int \<Rightarrow> CircuitBreaker" where
  "CircuitBreaker_init threshold timeout =
     \<lparr>failure_threshold = threshold, recovery_timeout = timeout, failure_count = 0,
      last_failure_time = None, state = CLOSED\<rparr>"

definition should_attempt_reset :: "CircuitBreaker \<Rightarrow> datetime \<Rightarrow> bool" where
  "should_attempt_reset cb now =
     (case last_failure_time cb of
        None \<Rightarrow> True
      | Some t \<Rightarrow> now - t > recovery_timeout cb * 1000000)"

definition on_success :: "CircuitBreaker \<Rightarrow> CircuitBreaker" where
  "on_success cb = cb\<lparr>failure_count := 0, state := CLOSED\<rparr>"

definition on_failure :: "CircuitBreaker \<Rightarrow> datetime \<Rightarrow> CircuitBreaker" where
  "on_failure cb now =
     (let cb1 = cb\<lparr>failure_count := failure_count cb + 1, last_failure_time := Some now\<rparr>
      in if failure_count cb1 \<ge> failure_threshold cb1 then cb1\<lparr>state := OPEN\<rparr> else cb1)"

text \<open>
  \<open>CircuitBreaker.call\<close>. The wrapped function works on a world \<open>'w\<close>, which it may
  change, and returns or raises; the clock is read from the world, so the time of a
  failure is the time after the function has run.
\<close>

definition call ::
  "CircuitBreaker \<Rightarrow> ('w \<Rightarrow> datetime) \<Rightarrow> ('w \<Rightarrow> 'w \<times> (py_exn + 'r)) \<Rightarrow> 'w
     \<Rightarrow> CircuitBreaker \<times> 'w \<times> (py_exn + 'r)" where
  "call cb clock func w =
     (case (if state cb = OPEN
            then (if should_attempt_reset cb (clock w) then Inr (cb\<lparr>state := HALF_OPEN\<rparr>)
                  else Inl (Exception ''Circuit breaker is OPEN - service unavailable''))
            else Inr cb) of
        Inl e \<Rightarrow> (cb, w, Inl e)
      | Inr cb1 \<Rightarrow>
          (case func w of
             (w', Inr result) \<Rightarrow> (on_success cb1, w', Inr result)
           | (w', Inl e) \<Rightarrow> (on_failure cb1 (clock w'), w', Inl e)))"

text \<open>
  \<open>str.title()\<close> on ASCII text, which module names are: the first letter of every run
  of letters in upper case, the others in lower case.
\<close>

definition is_ascii_letter :: "char \<Rightarrow> bool" where
  "is_ascii_letter c =
     (let n = (of_char c :: nat) in (65 \<le> n \<and> n \<le> 90) \<or> (97 \<le> n \<and> n \<le> 122))"

definition ascii_upper_char :: "char \<Rightarrow> char" where
  "ascii_upper_char c =
     (let n = (of_char c :: nat) in if 97 \<le> n \<and> n \<le> 122 then char_of (n - 32) else c)"

fun py_title_from :: "bool \<Rightarrow> string \<Rightarrow> string" where
  "py_title_from previous_is_cased [] = []"
| "py_title_from previous_is_cased (c # cs) =
     (if is_ascii_letter c
      then (if previous_is_cased then py_lower_char c else ascii_upper_char c) # py_title_from True cs
      else c # py_title_from False cs)"

definition py_title :: "string \<Rightarrow> string" where
  "py_title s = py_title_from False s"

text \<open>\<open>module.split('.')[-1]\<close>: what follows the last dot.\<close>

definition last_dotted_part :: "string \<Rightarrow> string" where
  "last_dotted_part s = rev (takeWhile (\<lambda>c. c \<noteq> CHR ''.'') (rev s))"

text \<open>
  The wrapper that \<open>with_circuit_breaker(circuit_breaker)\<close> puts around \<open>func\<close>. It
  returns what \<open>func\<close> returns, or the error response it makes of an exception whose text
  has \<open>Circuit breaker is OPEN\<close> in it. For a coroutine function
  (\<open>is_coroutine_function\<close>), the call that the breaker guards only makes the coroutine,
  which neither raises nor changes anything; the wrapper then awaits it. \<open>func_module\<close>
  is \<open>func.__module__\<close>, when \<open>func\<close> has one.
\<close>

datatype 'r wrapped = Returned 'r | Error_response Fragment

definition with_circuit_breaker ::
  "CircuitBreaker \<Rightarrow> ('w \<Rightarrow> datetime) \<Rightarrow> bool \<Rightarrow> string option
     \<Rightarrow> ('w \<Rightarrow> 'w \<times> (py_exn + 'r)) \<Rightarrow> 'w
     \<Rightarrow> CircuitBreaker \<times> 'w \<times> (py_exn + 'r wrapped)" where
  "with_circuit_breaker circuit_breaker clock is_coroutine_function func_module func w =
     (case (if is_coroutine_function
            then (case call circuit_breaker clock (\<lambda>w0. (w0, Inr ())) w of
                    (cb', w', Inl e) \<Rightarrow> (cb', w', Inl e)
                  | (cb', w', Inr coroutine) \<Rightarrow> (case func w' of (w'', r) \<Rightarrow> (cb', w'', r)))
            else call circuit_breaker clock func w) of
        (cb', w', Inr result) \<Rightarrow> (cb', w', Inr (Returned result))
      | (cb', w', Inl e) \<Rightarrow>
          if py_in ''Circuit breaker is OPEN'' (exn_str e)
          then (let service_name =
                      (case func_module of
                         Some m \<Rightarrow> last_dotted_part m
                       | None \<Rightarrow> ''service'')
                in (cb', w',
                    Inr (Error_response
                          (create_error_response (clock w')
                             (py_title service_name
                              @ '' is temporarily unavailable. Please try again later.'')
                             ''circuit_breaker_open''))))
          else (cb', w', Inl e))"

text \<open>
  A call counter for a wrapped function, as a test puts one around it: the world gets
  a count of the invocations.
\<close>

definition counted :: "('w \<Rightarrow> 'w \<times> 'a) \<Rightarrow> nat \<times> 'w \<Rightarrow> (nat \<times> 'w) \<times> 'a" where
  "counted func = (\<lambda>(n, w). case func w of (w', r) \<Rightarrow> ((Suc n, w'), r))"

section \<open>Requests to the table during an operation\<close>

text \<open>
  \<open>requests_used svc svc' used\<close>: between the service \<open>svc\<close> and the service \<open>svc'\<close>
  that an operation left, the table was asked \<open>length used\<close> times, with the outcomes
  \<open>used\<close> (\<open>True\<close> for a request that raised). Without a table nothing is asked.
\<close>

definition requests_used :: "SessionService \<Rightarrow> SessionService \<Rightarrow> bool list \<Rightarrow> bool" where
  "requests_used svc svc' used \<longleftrightarrow>
     session_timeout_hours svc' = session_timeout_hours svc
     \<and> max_conversation_history svc' = max_conversation_history svc
     \<and> (case table svc of
           None \<Rightarrow> used = [] \<and> table svc' = None
         | Some t \<Rightarrow> (case table svc' of None \<Rightarrow> False | Some t' \<Rightarrow> raises t = used @ raises t'))"

section \<open>Scenario data\<close>

text \<open>
  Concrete values for the examples below: the session \<open>s1\<close> of user \<open>u1\<close>, a message
  of that session, a service with the default settings (24 hours, 100 messages) over a
  table with given items and request outcomes, and handlers that yield one status
  fragment naming the handler that ran.
\<close>

definition scenario_session :: Session where
  "scenario_session =
     \<lparr>session_id = ''s1'', user_id = ''u1'', created_at = 0, last_activity = 0,
      knowledge_base_id = None, conversation_history = [], status = ACTIVE\<rparr>"

definition scenario_message :: "string \<Rightarrow> string \<Rightarrow> Message" where
  "scenario_message mid text =
     \<lparr>message_id = mid, m_session_id = ''s1'', content = text, message_type = USER,
      m_timestamp = 0, metadata = []\<rparr>"

definition scenario_service :: "Session list \<Rightarrow> bool list \<Rightarrow> SessionService" where
  "scenario_service stored outcomes =
     \<lparr>table = Some \<lparr>items = stored, raises = outcomes\<rparr>,
      session_timeout_hours = 24, max_conversation_history = 100\<rparr>"

definition scenario_handlers ::
  "command_type \<Rightarrow> SessionService \<Rightarrow> Session \<Rightarrow> string \<Rightarrow> string \<Rightarrow> run" where
  "scenario_handlers command_type svc session user_message uid =
     (svc,
      [create_status_response 0
         (case command_type of
            Agent \<Rightarrow> ''agent handler''
          | Knowledge_base \<Rightarrow> ''knowledge base handler''
          | General_ai \<Rightarrow> ''general ai handler'')],
      None)"

section \<open>Facts about the string helpers\<close>

lemma py_startswith_iff: "py_startswith s sub \<longleftrightarrow> prefix sub s"
  by (induction s sub rule: py_startswith.induct) auto

lemma py_in_iff_sublist: "py_in sub s \<longleftrightarrow> sublist sub s"
  by (induction s) (auto simp: py_startswith_iff sublist_Cons_right)

lemma py_in_iff: "py_in sub s \<longleftrightarrow> (\<exists>pre suf. s = pre @ sub @ suf)"
  by (simp add: py_in_iff_sublist sublist_def)

lemma sublist_dropWhile:
  assumes "sub \<noteq> []" and "\<forall>c\<in>set sub. \<not> P c"
  shows "sublist sub (dropWhile P s) \<longleftrightarrow> sublist sub s"
proof (induction s)
  case Nil
  then show ?case by simp
next
  case (Cons d s)
  obtain c sub' where sub: "sub = c # sub'" using assms(1) by (cases sub) auto
  show ?case
  proof (cases "P d")
    case True
    have "\<not> prefix sub (d # s)" using True assms(2) sub by auto
    then show ?thesis using True Cons by (simp add: sublist_Cons_right)
  next
    case False
    then show ?thesis by simp
  qed
qed

text \<open>Stripping the ends does not change whether a word without whitespace occurs.\<close>

lemma sublist_py_strip:
  assumes "sub \<noteq> []" and "\<forall>c\<in>set sub. \<not> py_isspace c"
  shows "sublist sub (py_strip s) \<longleftrightarrow> sublist sub s"
proof -
  have r: "rev sub \<noteq> []" "\<forall>c\<in>set (rev sub). \<not> py_isspace c" using assms by auto
  have "sublist sub (py_strip s)
          \<longleftrightarrow> sublist (rev sub) (dropWhile py_isspace (rev (dropWhile py_isspace s)))"
    unfolding py_strip_def by (metis sublist_rev rev_rev_ident)
  also have "\<dots> \<longleftrightarrow> sublist (rev sub) (rev (dropWhile py_isspace s))"
    by (rule sublist_dropWhile[OF r])
  also have "\<dots> \<longleftrightarrow> sublist sub (dropWhile py_isspace s)" by (simp only: sublist_rev)
  also have "\<dots> \<longleftrightarrow> sublist sub s" by (rule sublist_dropWhile[OF assms])
  finally show ?thesis .
qed

section \<open>The classifier\<close>

lemma agent_commands_no_space:
  "cmd \<in> set agent_commands \<Longrightarrow> cmd \<noteq> [] \<and> (\<forall>c\<in>set cmd. \<not> py_isspace c)"
  by (auto simp: agent_commands_def py_isspace_def)

lemma indicators_no_space:
  "ind \<in> set knowledge_base_indicators \<Longrightarrow> ind \<noteq> [] \<and> (\<forall>c\<in>set ind. \<not> py_isspace c)"
  by (auto simp: knowledge_base_indicators_def py_isspace_def)

lemma agent_commands_lower: "cmd \<in> set agent_commands \<Longrightarrow> py_lower cmd = cmd"
  by (auto simp: agent_commands_def py_lower_def py_lower_char_def)

lemma agent_term_match:
  "cmd \<in> set agent_commands \<Longrightarrow>
     py_in cmd (py_strip (py_lower t)) \<longleftrightarrow> (\<exists>pre suf. py_lower t = pre @ cmd @ suf)"
  using agent_commands_no_space[of cmd] sublist_py_strip[of cmd "py_lower t"]
  by (simp add: py_in_iff_sublist sublist_def)

lemma indicator_match:
  "ind \<in> set knowledge_base_indicators \<Longrightarrow>
     py_in ind (py_strip (py_lower t)) \<longleftrightarrow> (\<exists>pre suf. py_lower t = pre @ ind @ suf)"
  using indicators_no_space[of ind] sublist_py_strip[of ind "py_lower t"]
  by (simp add: py_in_iff_sublist sublist_def)

text \<open>
  Claim C4. \<open>classify_command\<close> is a function of the text alone, with a value for every
  text: \<open>Agent\<close> when the lower-cased text contains a term of the agent vocabulary
  (whether or not it also contains a knowledge-base indicator), otherwise
  \<open>Knowledge_base\<close> when it contains one of the five indicators, otherwise
  \<open>General_ai\<close>. The \<open>strip()\<close> of the source changes nothing here, since no term and
  no indicator has whitespace in it.
\<close>

theorem classify_command_priority:
  "classify_command t =
     (if \<exists>cmd\<in>set agent_commands. \<exists>pre suf. py_lower t = pre @ cmd @ suf then Agent
      else if \<exists>ind\<in>set knowledge_base_indicators. \<exists>pre suf. py_lower t = pre @ ind @ suf
      then Knowledge_base
      else General_ai)"
proof -
  have a: "list_ex (\<lambda>cmd. py_in cmd (py_strip (py_lower t))) agent_commands
             \<longleftrightarrow> (\<exists>cmd\<in>set agent_commands. \<exists>pre suf. py_lower t = pre @ cmd @ suf)"
    unfolding list_ex_iff using agent_term_match by blast
  have k: "list_ex (\<lambda>ind. py_in ind (py_strip (py_lower t))) knowledge_base_indicators
             \<longleftrightarrow> (\<exists>ind\<in>set knowledge_base_indicators. \<exists>pre suf. py_lower t = pre @ ind @ suf)"
    unfolding list_ex_iff using indicator_match by blast
  show ?thesis unfolding classify_command_def Let_def a k by (rule refl)
qed

text \<open>
  Claim C10. Matching has no word boundaries: a text that has an agent term anywhere
  in it, also inside a longer word, is classified \<open>Agent\<close>. In \<open>update my profile\<close>
  the only term that occurs is \<open>date\<close> (inside \<open>update\<close>), in \<open>really good idea\<close> the
  only one is \<open>all\<close> (inside \<open>really\<close>); both texts are classified \<open>Agent\<close>.
\<close>

theorem classify_command_inside_longer_word:
  "(cmd \<in> set agent_commands \<longrightarrow> classify_command (pre @ cmd @ suf) = Agent)
   \<and> classify_command ''update my profile'' = Agent
   \<and> filter (\<lambda>c. py_in c ''update my profile'') agent_commands = [''date'']
   \<and> classify_command ''really good idea'' = Agent
   \<and> filter (\<lambda>c. py_in c ''really good idea'') agent_commands = [''all'']"
proof -
  have g: "classify_command (pre @ cmd @ suf) = Agent" if m: "cmd \<in> set agent_commands"
  proof -
    have "py_lower (pre @ cmd @ suf) = py_lower pre @ cmd @ py_lower suf"
      using agent_commands_lower[OF m] by (simp add: py_lower_def)
    then have "py_in cmd (py_strip (py_lower (pre @ cmd @ suf)))"
      using agent_term_match[OF m] by blast
    then have "list_ex (\<lambda>c. py_in c (py_strip (py_lower (pre @ cmd @ suf)))) agent_commands"
      unfolding list_ex_iff using m by blast
    then show ?thesis by (simp add: classify_command_def)
  qed
  have e1: "classify_command ''update my profile'' = Agent" by code_simp
  have e2: "filter (\<lambda>c. py_in c ''update my profile'') agent_commands = [''date'']" by code_simp
  have e3: "classify_command ''really good idea'' = Agent" by code_simp
  have e4: "filter (\<lambda>c. py_in c ''really good idea'') agent_commands = [''all'']" by code_simp
  from g e1 e2 e3 e4 show ?thesis by blast
qed

theorem classify_command_inside_longer_word_witness:
  "''date'' \<in> set agent_commands \<and> classify_command (''up'' @ ''date'' @ '' my profile'') = Agent"
proof -
  have m: "''date'' \<in> set agent_commands" by (simp add: agent_commands_def)
  with classify_command_inside_longer_word[of "''date''" "''up''" "'' my profile''"]
  show ?thesis by blast
qed

section \<open>The circuit breaker\<close>

text \<open>
  Claim C2. The transitions of \<open>CircuitBreaker.call\<close>. A call that succeeds in a state
  other than \<open>OPEN\<close> sets \<open>failure_count\<close> to 0 and the state to \<open>CLOSED\<close>. A call
  that fails adds 1 to \<open>failure_count\<close>, sets \<open>last_failure_time\<close> to the time after
  the call, and opens the breaker when the count has reached \<open>failure_threshold\<close>. A
  call that arrives in state \<open>OPEN\<close> more than \<open>recovery_timeout\<close> seconds after
  \<open>last_failure_time\<close> is the call in state \<open>HALF_OPEN\<close>: the function is invoked,
  and its success closes the breaker, its failure counts as any failure does.
\<close>

theorem circuit_breaker_transitions:
  "(state cb \<noteq> OPEN \<longrightarrow> func w = (w', Inr r) \<longrightarrow>
      call cb clock func w = (cb\<lparr>failure_count := 0, state := CLOSED\<rparr>, w', Inr r))
   \<and> (state cb \<noteq> OPEN \<longrightarrow> func w = (w', Inl e) \<longrightarrow>
      call cb clock func w =
        (cb\<lparr>failure_count := failure_count cb + 1, last_failure_time := Some (clock w'),
            state := (if failure_count cb + 1 \<ge> failure_threshold cb then OPEN else state cb)\<rparr>,
         w', Inl e))
   \<and> (state cb = OPEN \<longrightarrow> last_failure_time cb = Some t \<longrightarrow>
      clock w - t > recovery_timeout cb * 1000000 \<longrightarrow>
        call cb clock func w = call (cb\<lparr>state := HALF_OPEN\<rparr>) clock func w
        \<and> (func w = (w', Inr r) \<longrightarrow>
             call cb clock func w = (cb\<lparr>failure_count := 0, state := CLOSED\<rparr>, w', Inr r))
        \<and> (func w = (w', Inl e) \<longrightarrow>
             call cb clock func w =
               (cb\<lparr>failure_count := failure_count cb + 1, last_failure_time := Some (clock w'),
                   state := (if failure_count cb + 1 \<ge> failure_threshold cb then OPEN
                             else HALF_OPEN)\<rparr>,
                w', Inl e)))"
  by (auto simp: call_def on_success_def on_failure_def should_attempt_reset_def Let_def)

theorem circuit_breaker_transitions_witness:
  "state \<lparr>failure_threshold = 3, recovery_timeout = 30, failure_count = 2,
          last_failure_time = Some 0, state = CLOSED\<rparr> \<noteq> OPEN
   \<and> call \<lparr>failure_threshold = 3, recovery_timeout = 30, failure_count = 2,
           last_failure_time = Some 0, state = CLOSED\<rparr>
          (\<lambda>w. w) (\<lambda>w. (w + 1000000, Inr ''ok'')) (5000000 :: int)
       = (\<lparr>failure_threshold = 3, recovery_timeout = 30, failure_count = 0,
           last_failure_time = Some 0, state = CLOSED\<rparr>, 6000000, Inr ''ok'')
   \<and> call \<lparr>failure_threshold = 3, recovery_timeout = 30, failure_count = 2,
           last_failure_time = Some 0, state = CLOSED\<rparr>
          (\<lambda>w. w) (\<lambda>w. (w + 1000000, Inl (Exception ''down'') :: py_exn + string)) (5000000 :: int)
       = (\<lparr>failure_threshold = 3, recovery_timeout = 30, failure_count = 3,
           last_failure_time = Some 6000000, state = OPEN\<rparr>, 6000000, Inl (Exception ''down''))
   \<and> state \<lparr>failure_threshold = 3, recovery_timeout = 30, failure_count = 3,
            last_failure_time = Some 6000000, state = OPEN\<rparr> = OPEN
   \<and> (40000000 :: int) - 6000000 > 30 * 1000000
   \<and> call \<lparr>failure_threshold = 3, recovery_timeout = 30, failure_count = 3,
           last_failure_time = Some 6000000, state = OPEN\<rparr>
          (\<lambda>w. w) (\<lambda>w. (w + 1000000, Inr ''ok'')) (40000000 :: int)
       = (\<lparr>failure_threshold = 3, recovery_timeout = 30, failure_count = 0,
           last_failure_time = Some 6000000, state = CLOSED\<rparr>, 41000000, Inr ''ok'')"
proof -
  let ?closed = "\<lparr>failure_threshold = 3, recovery_timeout = 30, failure_count = 2,
                  last_failure_time = Some 0, state = CLOSED\<rparr>"
  let ?opened = "\<lparr>failure_threshold = 3, recovery_timeout = 30, failure_count = 3,
                  last_failure_time = Some 6000000, state = OPEN\<rparr>"
  let ?good = "\<lambda>w :: int. (w + 1000000, Inr ''ok'' :: py_exn + string)"
  let ?bad = "\<lambda>w :: int. (w + 1000000, Inl (Exception ''down'') :: py_exn + string)"
  have h1: "state ?closed \<noteq> OPEN" by simp
  have h2: "state ?opened = OPEN" "last_failure_time ?opened = Some 6000000"
    "(\<lambda>w. w) (40000000 :: int) - 6000000 > recovery_timeout ?opened * 1000000" by simp_all
  have g1: "?good 5000000 = (6000000, Inr ''ok'')" and g2: "?good 40000000 = (41000000, Inr ''ok'')"
    and b1: "?bad 5000000 = (6000000, Inl (Exception ''down''))" by simp_all
  have c1: "call ?closed (\<lambda>w. w) ?good 5000000
              = (?closed\<lparr>failure_count := 0, state := CLOSED\<rparr>, 6000000, Inr ''ok'')"
    using circuit_breaker_transitions
            [of ?closed ?good 5000000 6000000 "''ok''" "\<lambda>w. w" "Exception ''down''" 0] h1 g1
    by blast
  have c2: "call ?closed (\<lambda>w. w) ?bad 5000000
              = (?closed\<lparr>failure_count := failure_count ?closed + 1,
                    last_failure_time := Some ((\<lambda>w. w) 6000000),
                    state := (if failure_count ?closed + 1 \<ge> failure_threshold ?closed
                              then OPEN else state ?closed)\<rparr>,
                 6000000, Inl (Exception ''down''))"
    using circuit_breaker_transitions
            [of ?closed ?bad 5000000 6000000 "''ok''" "\<lambda>w. w" "Exception ''down''" 0] h1 b1
    by blast
  have c3: "call ?opened (\<lambda>w. w) ?good 40000000
              = (?opened\<lparr>failure_count := 0, state := CLOSED\<rparr>, 41000000, Inr ''ok'')"
    using circuit_breaker_transitions
            [of ?opened ?good 40000000 41000000 "''ok''" "\<lambda>w. w" "Exception ''down''" 6000000]
          h2 g2
    by blast
  show ?thesis unfolding c1 c2 c3 by simp
qed

text \<open>
  Claim C3. While the breaker is \<open>OPEN\<close> and not more than \<open>recovery_timeout\<close>
  seconds have passed since \<open>last_failure_time\<close>, \<open>call\<close> raises the circuit-open
  exception and leaves the breaker and the world as they were: the wrapped function is
  not invoked, so a counter around it keeps its value \<open>n\<close>. The wrapper of
  \<open>with_circuit_breaker\<close> turns the exception into an error response with
  \<open>error_type = circuit_breaker_open\<close>, for a plain function and for a coroutine
  function alike.
\<close>

theorem open_circuit_rejects_without_invoking:
  assumes "state cb = OPEN" and "last_failure_time cb = Some t"
    and "clock w - t \<le> recovery_timeout cb * 1000000"
  shows "call cb clock func w
           = (cb, w, Inl (Exception ''Circuit breaker is OPEN - service unavailable''))
         \<and> call cb (\<lambda>nw. clock (snd nw)) (counted func) (n, w)
           = (cb, (n, w), Inl (Exception ''Circuit breaker is OPEN - service unavailable''))
         \<and> (with_circuit_breaker cb (\<lambda>nw. clock (snd nw)) is_coroutine_function func_module
                  (counted func) (n, w)
              = (cb, (n, w),
                 Inr (Error_response
                        \<lparr>f_type = ''error'', f_content =
                           py_title (case func_module of Some m \<Rightarrow> last_dotted_part m
                                     | None \<Rightarrow> ''service'')
                           @ '' is temporarily unavailable. Please try again later.'', f_timestamp = clock w,
                         f_streaming = False, f_error_type = Some ''circuit_breaker_open'',
                         f_agent_data = None\<rparr>)))"
proof -
  have r: "\<not> should_attempt_reset cb (clock w)"
    using assms by (simp add: should_attempt_reset_def)
  have c0: "call cb clock func w
              = (cb, w, Inl (Exception ''Circuit breaker is OPEN - service unavailable''))"
    using assms(1) r by (simp add: call_def)
  have c1: "call cb (\<lambda>nw. clock (snd nw)) (counted func) (n, w)
              = (cb, (n, w), Inl (Exception ''Circuit breaker is OPEN - service unavailable''))"
    using assms(1) r by (simp add: call_def)
  have c2: "call cb (\<lambda>nw. clock (snd nw)) (\<lambda>w0. (w0, Inr ())) (n, w)
              = (cb, (n, w), Inl (Exception ''Circuit breaker is OPEN - service unavailable''))"
    using assms(1) r by (simp add: call_def)
  have w: "with_circuit_breaker cb (\<lambda>nw. clock (snd nw)) is_coroutine_function func_module
                  (counted func) (n, w)
              = (cb, (n, w),
                 Inr (Error_response
                        \<lparr>f_type = ''error'', f_content =
                           py_title (case func_module of Some m \<Rightarrow> last_dotted_part m
                                     | None \<Rightarrow> ''service'')
                           @ '' is temporarily unavailable. Please try again later.'', f_timestamp = clock w,
                         f_streaming = False, f_error_type = Some ''circuit_breaker_open'',
                         f_agent_data = None\<rparr>))"
    unfolding with_circuit_breaker_def c1 c2
    by (simp add: create_error_response_def)
  from c0 c1 w show ?thesis by blast
qed

theorem open_circuit_rejects_without_invoking_witness:
  "state \<lparr>failure_threshold = 3, recovery_timeout = 30, failure_count = 3,
          last_failure_time = Some 6000000, state = OPEN\<rparr> = OPEN
   \<and> (20000000 :: int) - 6000000 \<le> 30 * 1000000
   \<and> call \<lparr>failure_threshold = 3, recovery_timeout = 30, failure_count = 3,
           last_failure_time = Some 6000000, state = OPEN\<rparr>
          (\<lambda>nw. snd nw) (counted (\<lambda>w. (w + 1000000, Inr ''ok''))) (3, 20000000 :: int)
       = (\<lparr>failure_threshold = 3, recovery_timeout = 30, failure_count = 3,
           last_failure_time = Some 6000000, state = OPEN\<rparr>, (3, 20000000),
          Inl (Exception ''Circuit breaker is OPEN - service unavailable''))"
proof -
  let ?opened = "\<lparr>failure_threshold = 3, recovery_timeout = 30, failure_count = 3,
                  last_failure_time = Some 6000000, state = OPEN\<rparr>"
  have h: "state ?opened = OPEN" "last_failure_time ?opened = Some 6000000"
    "(\<lambda>w. w) (20000000 :: int) - 6000000 \<le> recovery_timeout ?opened * 1000000" by simp_all
  from open_circuit_rejects_without_invoking
         [of ?opened 6000000 "\<lambda>w. w" 20000000 "\<lambda>w. (w + 1000000, Inr ''ok'')" 3, OF h]
  show ?thesis by simp
qed

section \<open>Formatting the agent's answer\<close>

text \<open>
  No value of \<open>AgentResponseType\<close> is one of the upper-case strings the function
  compares with, so every response takes the last branch, \<open>str(agent_response.data)\<close>.
\<close>

lemma format_agent_response_falls_through:
  "format_agent_response r = Inr (py_repr (PDict (data r)))"
  by (cases "response_type r") (simp_all add: format_agent_response_def)

text \<open>
  Claim C1. The claim asks for the text \<open>Weather in Birmingham, Alabama: Partly Cloudy,
  72\<degree>F\<close> when the agent answers a weather request with temperature \<open>72\<degree>F\<close> and
  condition \<open>Partly Cloudy\<close>. The code gives the \<open>str\<close> of the data dictionary,
  \<open>{'temperature': '72\<degree>F', 'condition': 'Partly Cloudy'}\<close>, which is not that text.
\<close>

theorem format_agent_response_weather_example:
  "format_agent_response
     \<lparr>agent_id = ''birmingham_agent'', response_type = WEATHER,
      data = [(''temperature'', PStr (''72'' @ [CHR 0xB0] @ ''F'')),
              (''condition'', PStr ''Partly Cloudy'')],
      location = ''Birmingham, Alabama'', r_timestamp = 0\<rparr>
     = Inr (''{'' @ [CHR 0x27] @ ''temperature'' @ [CHR 0x27] @ '': ''
            @ [CHR 0x27] @ ''72'' @ [CHR 0xB0] @ ''F'' @ [CHR 0x27] @ '', ''
            @ [CHR 0x27] @ ''condition'' @ [CHR 0x27] @ '': ''
            @ [CHR 0x27] @ ''Partly Cloudy'' @ [CHR 0x27] @ ''}'')
   \<and> format_agent_response
     \<lparr>agent_id = ''birmingham_agent'', response_type = WEATHER,
      data = [(''temperature'', PStr (''72'' @ [CHR 0xB0] @ ''F'')),
              (''condition'', PStr ''Partly Cloudy'')],
      location = ''Birmingham, Alabama'', r_timestamp = 0\<rparr>
     \<noteq> Inr (''Weather in Birmingham, Alabama: Partly Cloudy, 72'' @ [CHR 0xB0] @ ''F'')"
  by (simp add: format_agent_response_falls_through py_repr_str_def py_repr_char_def Let_def)

text \<open>
  The same answer in a run of the handler on the message \<open>weather\<close>: the
  \<open>agent_response\<close> fragment and the stored \<open>AGENT\<close> message both carry the \<open>str\<close>
  of the dictionary.
\<close>

lemma handle_agent_command_weather_run:
  "(case handle_agent_command agent_commands
           (\<lambda>c. \<lparr>agent_id = ''birmingham_agent'', response_type = WEATHER,
                  data = [(''temperature'', PStr (''72'' @ [CHR 0xB0] @ ''F'')),
                          (''condition'', PStr ''Partly Cloudy'')],
                  location = ''Birmingham, Alabama'', r_timestamp = 0\<rparr>)
           1000 ''m2''
           \<lparr>table = Some \<lparr>items = [\<lparr>session_id = ''s1'', user_id = ''u1'', created_at = 0,
                                     last_activity = 0, knowledge_base_id = None,
                                     conversation_history = [], status = ACTIVE\<rparr>],
                          raises = []\<rparr>,
            session_timeout_hours = 24, max_conversation_history = 100\<rparr>
           \<lparr>session_id = ''s1'', user_id = ''u1'', created_at = 0, last_activity = 0,
            knowledge_base_id = None, conversation_history = [], status = ACTIVE\<rparr>
           ''weather'' ''u1'' of
      (svc', responses, raised) \<Rightarrow>
        (map f_type responses, map f_content responses, raised,
         map_option (\<lambda>t. map (\<lambda>s. map (\<lambda>m. (message_type m, content m)) (conversation_history s))
                            (items t)) (table svc')))
   = ([''status'', ''agent_response''],
      [''Contacting Birmingham agent...'',
       ''{'' @ [CHR 0x27] @ ''temperature'' @ [CHR 0x27] @ '': ''
       @ [CHR 0x27] @ ''72'' @ [CHR 0xB0] @ ''F'' @ [CHR 0x27] @ '', ''
       @ [CHR 0x27] @ ''condition'' @ [CHR 0x27] @ '': ''
       @ [CHR 0x27] @ ''Partly Cloudy'' @ [CHR 0x27] @ ''}''],
      None,
      Some [[(AGENT,
              ''{'' @ [CHR 0x27] @ ''temperature'' @ [CHR 0x27] @ '': ''
              @ [CHR 0x27] @ ''72'' @ [CHR 0xB0] @ ''F'' @ [CHR 0x27] @ '', ''
              @ [CHR 0x27] @ ''condition'' @ [CHR 0x27] @ '': ''
              @ [CHR 0x27] @ ''Partly Cloudy'' @ [CHR 0x27] @ ''}'')]])"
  by code_simp

section \<open>The command passed to the tool agent\<close>

text \<open>The loop returns the first member, in iteration order, that occurs in the message.\<close>

lemma extract_loop_find:
  "extract_loop order m d = (case find (\<lambda>c. py_in c m) order of None \<Rightarrow> d | Some c \<Rightarrow> c)"
  by (induction order) auto

lemma find_cong_on_set: "(\<forall>x\<in>set xs. P x = Q x) \<Longrightarrow> find P xs = find Q xs"
  by (induction xs) auto

text \<open>
  The messages \<open>date time\<close> and \<open>time date\<close> contain the same terms of the
  vocabulary (\<open>date\<close> and \<open>time\<close>).
\<close>

lemma same_terms_in_both_orders:
  "\<forall>c\<in>set agent_commands.
     py_in c (py_strip (py_lower ''date time'')) = py_in c (py_strip (py_lower ''time date''))"
  by code_simp

text \<open>
  Claim C9, as stated, fails. By the claim the message \<open>date time\<close> is answered by the
  date request (\<open>date\<close> comes first in the message) and \<open>time date\<close> by the time
  request. The loop does not look at positions in the message: it takes the first
  member of the set, in the set's iteration order, that occurs anywhere in the
  message, so both messages get the same command. With the members in the order in
  which the source lists them, \<open>date time\<close> is answered by the time request; and
  whatever the iteration order is, one of the two messages is answered against the
  claim.
\<close>

theorem first_match_in_message_counterexample:
  "invoke_agent_call (extract_agent_command agent_commands ''date time'') = Get_current_time
   \<and> \<not> (\<exists>iteration_order. set iteration_order = set agent_commands
         \<and> invoke_agent_call (extract_agent_command iteration_order ''date time'') = Get_current_date
         \<and> invoke_agent_call (extract_agent_command iteration_order ''time date'') = Get_current_time)"
proof (rule conjI)
  show "invoke_agent_call (extract_agent_command agent_commands ''date time'') = Get_current_time"
    by code_simp
next
  show "\<not> (\<exists>iteration_order. set iteration_order = set agent_commands
         \<and> invoke_agent_call (extract_agent_command iteration_order ''date time'') = Get_current_date
         \<and> invoke_agent_call (extract_agent_command iteration_order ''time date'') = Get_current_time)"
  proof
  assume "\<exists>iteration_order. set iteration_order = set agent_commands
         \<and> invoke_agent_call (extract_agent_command iteration_order ''date time'') = Get_current_date
         \<and> invoke_agent_call (extract_agent_command iteration_order ''time date'') = Get_current_time"
  then obtain iteration_order where s: "set iteration_order = set agent_commands"
    and d: "invoke_agent_call (extract_agent_command iteration_order ''date time'') = Get_current_date"
    and t: "invoke_agent_call (extract_agent_command iteration_order ''time date'') = Get_current_time"
    by blast
  have "find (\<lambda>c. py_in c (py_strip (py_lower ''date time''))) iteration_order
          = find (\<lambda>c. py_in c (py_strip (py_lower ''time date''))) iteration_order"
    using same_terms_in_both_orders s by (intro find_cong_on_set) simp
  then have "extract_agent_command iteration_order ''date time''
               = extract_agent_command iteration_order ''time date''"
    by (simp add: extract_agent_command_def extract_loop_find)
  with d t show False by simp
  qed
qed

lemma agent_commands_known:
  "c \<in> set agent_commands \<Longrightarrow> invoke_agent_call c \<noteq> Unknown_command"
  unfolding agent_commands_def by (auto simp: invoke_agent_call_def py_lower_def py_lower_char_def py_strip_def py_isspace_def)

lemma find_SomeD_split:
  "find P xs = Some x \<Longrightarrow> P x \<and> (\<exists>before after. xs = before @ x # after \<and> (\<forall>b\<in>set before. \<not> P b))"
proof (induction xs)
  case Nil
  then show ?case by simp
next
  case (Cons a xs)
  show ?case
  proof (cases "P a")
    case True
    with Cons.prems have "x = a" by simp
    then have "a # xs = [] @ x # xs \<and> (\<forall>b\<in>set []. \<not> P b)" by simp
    with True \<open>x = a\<close> show ?thesis by blast
  next
    case False
    with Cons.prems have "find P xs = Some x" by simp
    from Cons.IH[OF this] obtain before after where
      "P x" "xs = before @ x # after" "\<forall>b\<in>set before. \<not> P b" by blast
    with False have "a # xs = (a # before) @ x # after \<and> (\<forall>b\<in>set (a # before). \<not> P b)"
      by simp
    with \<open>P x\<close> show ?thesis by blast
  qed
qed

text \<open>
  Claim C9, amended. For every iteration order of the vocabulary, the command handed
  to \<open>invoke_agent\<close> is a term of the vocabulary, and \<open>invoke_agent\<close> turns it into
  one of its four requests (time, date, weather, all), never into the unknown-command
  error. When a term of the vocabulary occurs in the lower-cased, stripped message,
  the command is the first member in iteration order that occurs in it; when none
  occurs, it is \<open>all\<close>.
\<close>

theorem extract_agent_command_iteration_order:
  assumes "set iteration_order = set agent_commands"
  shows "extract_agent_command iteration_order text \<in> set agent_commands
         \<and> invoke_agent_call (extract_agent_command iteration_order text) \<noteq> Unknown_command
         \<and> (if \<exists>t\<in>set agent_commands. py_in t (py_strip (py_lower text))
             then py_in (extract_agent_command iteration_order text) (py_strip (py_lower text))
                  \<and> (\<exists>before after.
                        iteration_order = before @ extract_agent_command iteration_order text # after
                        \<and> (\<forall>b\<in>set before. \<not> py_in b (py_strip (py_lower text))))
             else extract_agent_command iteration_order text = ''all'')"
proof -
  let ?m = "py_strip (py_lower text)"
  let ?c = "extract_agent_command iteration_order text"
  have c: "?c = (case find (\<lambda>c. py_in c ?m) iteration_order of None \<Rightarrow> ''all'' | Some c \<Rightarrow> c)"
    by (simp add: extract_agent_command_def extract_loop_find)
  have all: "''all'' \<in> set agent_commands" by (simp add: agent_commands_def)
  show ?thesis
  proof (cases "find (\<lambda>c. py_in c ?m) iteration_order")
    case None
    then have "\<not> (\<exists>t\<in>set agent_commands. py_in t ?m)"
      using assms by (auto simp: find_None_iff)
    moreover have "?c = ''all''" using None c by simp
    ultimately show ?thesis using all agent_commands_known by simp
  next
    case (Some x)
    from find_SomeD_split[OF Some] obtain before after where
      x: "py_in x ?m" "iteration_order = before @ x # after" "\<forall>b\<in>set before. \<not> py_in b ?m"
      by blast
    have cx: "?c = x" using Some c by simp
    have mem: "x \<in> set agent_commands" using x(2) assms by auto
    then have "\<exists>t\<in>set agent_commands. py_in t ?m" using x(1) by blast
    then show ?thesis unfolding cx using mem agent_commands_known x by auto
  qed
qed

theorem extract_agent_command_iteration_order_witness:
  "set agent_commands = set agent_commands
   \<and> extract_agent_command agent_commands ''What is the DATE today?'' \<in> set agent_commands
   \<and> invoke_agent_call (extract_agent_command agent_commands ''What is the DATE today?'') \<noteq> Unknown_command
   \<and> py_in (extract_agent_command agent_commands ''What is the DATE today?'')
        (py_strip (py_lower ''What is the DATE today?''))"
proof -
  have e: "\<exists>t\<in>set agent_commands. py_in t (py_strip (py_lower ''What is the DATE today?''))"
    by code_simp
  from extract_agent_command_iteration_order[of agent_commands "''What is the DATE today?''", OF refl] e
  show ?thesis by presburger
qed

section \<open>The session store\<close>

text \<open>A stored item that \<open>from_dict\<close> accepts comes back unchanged.\<close>

lemma all_or_raise_same: "all_or_raise (Message_post_init now) xs = Inr ys \<Longrightarrow> ys = xs"
proof (induction xs arbitrary: ys)
  case Nil
  then show ?case by simp
next
  case (Cons x xs)
  then show ?case
    by (auto simp: Message_post_init_def split: sum.splits if_splits)
qed

lemma Session_from_dict_same: "Session_from_dict now d = Inr s \<Longrightarrow> s = d"
  by (auto simp: Session_from_dict_def Session_post_init_def
           dest!: all_or_raise_same split: sum.splits if_splits)

lemma next_raises_two:
  assumes "\<forall>b\<in>set (take 2 (raises t)). \<not> b"
  obtains t1 where "next_raises t = (False, t1)" and "items t1 = items t"
    and "\<forall>b\<in>set (take 1 (raises t1)). \<not> b"
proof (cases "raises t")
  case Nil
  then have "next_raises t = (False, t)" by (simp add: next_raises_def)
  with Nil that show ?thesis by simp
next
  case (Cons b bs)
  then have "next_raises t = (b, t\<lparr>raises := bs\<rparr>)" by (simp add: next_raises_def)
  moreover have "\<not> b" using assms Cons by simp
  moreover have "\<forall>c\<in>set (take 1 bs). \<not> c" using assms Cons by (cases bs) auto
  ultimately show ?thesis using that[of "t\<lparr>raises := bs\<rparr>"] by simp
qed

lemma next_raises_one:
  assumes "\<forall>b\<in>set (take 1 (raises t)). \<not> b"
  obtains t1 where "next_raises t = (False, t1)" and "items t1 = items t"
proof (cases "raises t")
  case Nil
  then have "next_raises t = (False, t)" by (simp add: next_raises_def)
  with that show ?thesis by simp
next
  case (Cons b bs)
  then have "next_raises t = (b, t\<lparr>raises := bs\<rparr>)" by (simp add: next_raises_def)
  moreover have "\<not> b" using assms Cons by simp
  ultimately show ?thesis using that[of "t\<lparr>raises := bs\<rparr>"] by simp
qed

lemma find_session_id: "find (\<lambda>i. session_id i = sid) xs = Some s \<Longrightarrow> session_id s = sid"
  by (induction xs) (auto split: if_splits)

text \<open>
  Claim C7. A stored session of the requesting owner whose \<open>last_activity\<close> is more
  than \<open>session_timeout_hours\<close> old: \<open>get_session\<close> returns \<open>None\<close>, and the item
  under the session's key is afterwards the session with \<open>status = EXPIRED\<close>. The
  stored item is one that \<open>Session.from_dict\<close> accepts, and the table answers the read
  and the write-back.
\<close>

theorem get_session_expires_lazily:
  assumes tab: "table svc = Some t"
    and ok: "\<forall>b\<in>set (take 2 (raises t)). \<not> b"
    and stored: "find (\<lambda>i. session_id i = sid) (items t) = Some s"
    and valid: "Session_from_dict now s = Inr s"
    and owner: "user_id s = uid"
    and old: "now - last_activity s > session_timeout_hours svc * 3600 * 1000000"
  shows "\<exists>svc' t'. get_session svc now sid uid = (svc', Inr None)
           \<and> table svc' = Some t'
           \<and> find (\<lambda>i. session_id i = sid) (items t') = Some (s\<lparr>status := EXPIRED\<rparr>)"
proof -
  from ok obtain t1 where n1: "next_raises t = (False, t1)" and i1: "items t1 = items t"
    and ok1: "\<forall>b\<in>set (take 1 (raises t1)). \<not> b" by (rule next_raises_two)
  from ok1 obtain t2 where n2: "next_raises t1 = (False, t2)" and i2: "items t2 = items t1"
    by (rule next_raises_one)
  have sid: "session_id s = sid" using stored by (rule find_session_id)
  let ?svc1 = "svc\<lparr>table := Some t1\<rparr>"
  let ?t' = "t2\<lparr>items := s\<lparr>status := EXPIRED\<rparr>
                 # filter (\<lambda>i. session_id i \<noteq> sid) (items t2)\<rparr>"
  have g: "get_session_from_db svc sid = (?svc1, Some s)"
    using tab n1 i1 stored by (simp add: get_session_from_db_def get_item_def)
  have p: "store_session ?svc1 (s\<lparr>status := EXPIRED\<rparr>) = (svc\<lparr>table := Some ?t'\<rparr>, Inr ())"
    using n2 sid by (simp add: store_session_def put_item_def)
  have e: "is_expired now s (session_timeout_hours ?svc1)"
    using old by (simp add: is_expired_def)
  have "get_session_try svc now sid uid = (svc\<lparr>table := Some ?t'\<rparr>, Inr None)"
    unfolding get_session_try_def g using valid owner e p by simp
  then have "get_session svc now sid uid = (svc\<lparr>table := Some ?t'\<rparr>, Inr None)"
    by (simp add: get_session_def)
  moreover have "find (\<lambda>i. session_id i = sid) (items ?t') = Some (s\<lparr>status := EXPIRED\<rparr>)"
    using sid by simp
  ultimately show ?thesis by auto
qed

theorem get_session_expires_lazily_witness:
  "86400000001 - last_activity scenario_session
     > session_timeout_hours (scenario_service [scenario_session] []) * 3600 * 1000000
   \<and> (\<exists>svc' t'. get_session (scenario_service [scenario_session] []) 86400000001 ''s1'' ''u1''
                    = (svc', Inr None)
         \<and> table svc' = Some t'
         \<and> find (\<lambda>i. session_id i = ''s1'') (items t')
             = Some (scenario_session\<lparr>status := EXPIRED\<rparr>))"
proof -
  let ?t = "\<lparr>items = [scenario_session], raises = []\<rparr>"
  have h: "table (scenario_service [scenario_session] []) = Some ?t"
    "\<forall>b\<in>set (take 2 (raises ?t)). \<not> b"
    "find (\<lambda>i. session_id i = ''s1'') (items ?t) = Some scenario_session"
    "Session_from_dict 86400000001 scenario_session = Inr scenario_session"
    "user_id scenario_session = ''u1''"
    "86400000001 - last_activity scenario_session
       > session_timeout_hours (scenario_service [scenario_session] []) * 3600 * 1000000"
    by (simp_all add: scenario_service_def scenario_session_def Session_from_dict_def
                      Session_post_init_def)
  from get_session_expires_lazily[OF h] h(6) show ?thesis by blast
qed

text \<open>
  Claim C8. A session whose history holds exactly \<open>max_conversation_history\<close>
  messages (a cap of at least one message): \<open>add_message_to_session\<close> succeeds, and the
  stored history is the old one without its first message, followed by the new
  message; it has again exactly the cap's length. The session is stored, owned by the
  caller and not expired, and the table answers the read and the write.
\<close>

theorem add_message_to_session_at_cap:
  assumes tab: "table svc = Some t"
    and ok: "\<forall>b\<in>set (take 2 (raises t)). \<not> b"
    and stored: "find (\<lambda>i. session_id i = sid) (items t) = Some s"
    and valid: "Session_from_dict now s = Inr s"
    and owner: "user_id s = uid"
    and fresh: "\<not> is_expired now s (session_timeout_hours svc)"
    and cap: "0 < max_conversation_history svc"
    and full: "int (length (conversation_history s)) = max_conversation_history svc"
  shows "\<exists>svc' t' s'. add_message_to_session svc now sid uid message = (svc', Inr True)
           \<and> table svc' = Some t'
           \<and> find (\<lambda>i. session_id i = sid) (items t') = Some s'
           \<and> conversation_history s'
               = tl (conversation_history s) @ [message\<lparr>m_session_id := sid\<rparr>]
           \<and> int (length (conversation_history s')) = max_conversation_history svc"
proof -
  from ok obtain t1 where n1: "next_raises t = (False, t1)" and i1: "items t1 = items t"
    and ok1: "\<forall>b\<in>set (take 1 (raises t1)). \<not> b" by (rule next_raises_two)
  from ok1 obtain t2 where n2: "next_raises t1 = (False, t2)" and i2: "items t2 = items t1"
    by (rule next_raises_one)
  have sid: "session_id s = sid" using stored by (rule find_session_id)
  let ?svc1 = "svc\<lparr>table := Some t1\<rparr>"
  let ?h = "conversation_history s"
  let ?m = "message\<lparr>m_session_id := sid\<rparr>"
  let ?s' = "s\<lparr>conversation_history := tl ?h @ [?m], last_activity := now\<rparr>"
  let ?t' = "t2\<lparr>items := ?s' # filter (\<lambda>i. session_id i \<noteq> sid) (items t2)\<rparr>"
  have g: "get_session_from_db svc sid = (?svc1, Some s)"
    using tab n1 i1 stored by (simp add: get_session_from_db_def get_item_def)
  have "get_session_try svc now sid uid = (?svc1, Inr (Some s))"
    unfolding get_session_try_def g using valid owner fresh by simp
  then have gs: "get_session svc now sid uid = (?svc1, Inr (Some s))"
    by (simp add: get_session_def)
  have am: "add_message now s ?m
              = Inr (s\<lparr>conversation_history := ?h @ [?m], last_activity := now\<rparr>)"
    using sid by (simp add: add_message_def)
  have ne: "?h \<noteq> []" using cap full by auto
  have len: "length ?h = nat (max_conversation_history svc)" using full by simp
  have sl: "py_slice_from (- max_conversation_history svc) (?h @ [?m]) = tl ?h @ [?m]"
  proof -
    have "py_slice_from (- max_conversation_history svc) (?h @ [?m]) = drop 1 (?h @ [?m])"
      using cap full by (simp add: py_slice_from_def)
    also have "\<dots> = tl ?h @ [?m]" using ne by (cases ?h) simp_all
    finally show ?thesis .
  qed
  have up: "update_session ?svc1 x
              = (svc\<lparr>table := Some (t2\<lparr>items := x # filter (\<lambda>i. session_id i \<noteq> sid) (items t2)\<rparr>)\<rparr>,
                 Inr True)" if "session_id x = sid" for x
    using n2 that by (simp add: update_session_def store_session_def put_item_def)
  have "add_message_to_session_try svc now sid uid message = (svc\<lparr>table := Some ?t'\<rparr>, Inr True)"
    unfolding add_message_to_session_try_def gs using am sl full sid by (simp add: Let_def up)
  then have r: "add_message_to_session svc now sid uid message = (svc\<lparr>table := Some ?t'\<rparr>, Inr True)"
    by (simp add: add_message_to_session_def)
  have f: "find (\<lambda>i. session_id i = sid) (items ?t') = Some ?s'" using sid by simp
  have l: "int (length (conversation_history ?s')) = max_conversation_history svc"
    using ne full by simp
  from r f l show ?thesis by (intro exI[of _ "svc\<lparr>table := Some ?t'\<rparr>"] exI[of _ ?t'] exI[of _ ?s']) simp
qed

theorem add_message_to_session_at_cap_witness:
  "(0::int) < 2
   \<and> int (length [scenario_message ''m1'' ''one'', scenario_message ''m2'' ''two'']) = 2
   \<and> (\<exists>svc' t' s'.
         add_message_to_session
           ((scenario_service
               [scenario_session\<lparr>conversation_history :=
                  [scenario_message ''m1'' ''one'', scenario_message ''m2'' ''two'']\<rparr>] [])
              \<lparr>max_conversation_history := 2\<rparr>)
           1000 ''s1'' ''u1'' (scenario_message ''m3'' ''three'') = (svc', Inr True)
         \<and> table svc' = Some t'
         \<and> find (\<lambda>i. session_id i = ''s1'') (items t') = Some s'
         \<and> conversation_history s'
             = [scenario_message ''m2'' ''two'', scenario_message ''m3'' ''three''])"
proof -
  let ?s = "scenario_session\<lparr>conversation_history :=
              [scenario_message ''m1'' ''one'', scenario_message ''m2'' ''two'']\<rparr>"
  let ?t = "\<lparr>items = [?s], raises = []\<rparr>"
  let ?svc = "(scenario_service [?s] [])\<lparr>max_conversation_history := 2\<rparr>"
  have h: "table ?svc = Some ?t"
    "\<forall>b\<in>set (take 2 (raises ?t)). \<not> b"
    "find (\<lambda>i. session_id i = ''s1'') (items ?t) = Some ?s"
    "Session_from_dict 1000 ?s = Inr ?s"
    "user_id ?s = ''u1''"
    "\<not> is_expired 1000 ?s (session_timeout_hours ?svc)"
    "0 < max_conversation_history ?svc"
    "int (length (conversation_history ?s)) = max_conversation_history ?svc"
    by (simp_all add: scenario_service_def scenario_session_def scenario_message_def
                      Session_from_dict_def Session_post_init_def Message_post_init_def
                      py_strip_def py_isspace_def is_expired_def)
  have m: "(scenario_message ''m3'' ''three'')\<lparr>m_session_id := ''s1''\<rparr>
             = scenario_message ''m3'' ''three''"
    by (simp add: scenario_message_def)
  from add_message_to_session_at_cap[OF h, of "scenario_message ''m3'' ''three''"]
  show ?thesis unfolding m by auto
qed

text \<open>
  The cap has to be positive for this: with a cap of 0 the trimming slice is
  \<open>history[-0:]\<close>, the whole list, and nothing is evicted.
\<close>

lemma py_slice_from_minus_zero: "py_slice_from (- 0) xs = xs"
  by (simp add: py_slice_from_def)

section \<open>Storage errors and the facade\<close>

lemma requests_used_refl: "requests_used svc svc []"
  by (simp add: requests_used_def split: option.splits)

lemma requests_used_trans:
  "requests_used a b u \<Longrightarrow> requests_used b c v \<Longrightarrow> requests_used a c (u @ v)"
  by (auto simp: requests_used_def split: option.splits)

lemma next_raises_used:
  assumes "next_raises t = (b, t')"
  shows "\<exists>used. raises t = used @ raises t' \<and> (b \<longleftrightarrow> True \<in> set used)"
proof (cases "raises t")
  case Nil
  with assms have "\<not> b" "t' = t" by (simp_all add: next_raises_def)
  then show ?thesis by (intro exI[of _ "[]"]) simp
next
  case (Cons x xs)
  with assms have "b = x" "raises t' = xs" by (auto simp: next_raises_def)
  with Cons show ?thesis by (intro exI[of _ "[x]"]) auto
qed

lemma store_session_used:
  assumes "store_session svc s = (svc', r)"
  shows "\<exists>used. requests_used svc svc' used \<and> ((\<exists>e. r = Inl e) \<longleftrightarrow> True \<in> set used)"
proof (cases "table svc")
  case None
  with assms have "svc' = svc" "r = Inr ()" by (simp_all add: store_session_def)
  then show ?thesis using requests_used_refl[of svc] by (intro exI[of _ "[]"]) simp
next
  case (Some t)
  obtain b t1 where n: "next_raises t = (b, t1)" by (cases "next_raises t")
  from next_raises_used[OF n] obtain used where
    u: "raises t = used @ raises t1" "b \<longleftrightarrow> True \<in> set used" by blast
  show ?thesis
  proof (cases b)
    case True
    with assms Some n have "svc' = svc\<lparr>table := Some t1\<rparr>" "\<exists>e. r = Inl e"
      by (auto simp: store_session_def put_item_def)
    with u True Some show ?thesis
      by (intro exI[of _ used]) (auto simp: requests_used_def)
  next
    case False
    with assms Some n have "\<exists>t2. svc' = svc\<lparr>table := Some t2\<rparr> \<and> raises t2 = raises t1" "r = Inr ()"
      by (auto simp: store_session_def put_item_def)
    with u False Some show ?thesis
      by (intro exI[of _ used]) (auto simp: requests_used_def)
  qed
qed

lemma get_session_from_db_used:
  assumes "get_session_from_db svc sid = (svc', r)"
  shows "\<exists>used. requests_used svc svc' used \<and> (True \<in> set used \<longrightarrow> r = None)"
proof (cases "table svc")
  case None
  with assms have "svc' = svc" by (simp add: get_session_from_db_def)
  then show ?thesis using requests_used_refl[of svc] by (intro exI[of _ "[]"]) simp
next
  case (Some t)
  obtain b t1 where n: "next_raises t = (b, t1)" by (cases "next_raises t")
  from next_raises_used[OF n] obtain used where
    u: "raises t = used @ raises t1" "b \<longleftrightarrow> True \<in> set used" by blast
  from assms Some n have "svc' = svc\<lparr>table := Some t1\<rparr>" "b \<longrightarrow> r = None"
    by (auto simp: get_session_from_db_def get_item_def split: if_splits)
  with u Some show ?thesis by (intro exI[of _ used]) (auto simp: requests_used_def)
qed

lemma get_user_sessions_from_db_used:
  assumes "get_user_sessions_from_db svc uid = (svc', r)"
  shows "\<exists>used. requests_used svc svc' used \<and> (True \<in> set used \<longrightarrow> r = [])"
proof (cases "table svc")
  case None
  with assms have "svc' = svc" by (simp add: get_user_sessions_from_db_def)
  then show ?thesis using requests_used_refl[of svc] by (intro exI[of _ "[]"]) simp
next
  case (Some t)
  obtain b t1 where n: "next_raises t = (b, t1)" by (cases "next_raises t")
  from next_raises_used[OF n] obtain used where
    u: "raises t = used @ raises t1" "b \<longleftrightarrow> True \<in> set used" by blast
  from assms Some n have "svc' = svc\<lparr>table := Some t1\<rparr>" "b \<longrightarrow> r = []"
    by (auto simp: get_user_sessions_from_db_def scan_def split: if_splits)
  with u Some show ?thesis by (intro exI[of _ used]) (auto simp: requests_used_def)
qed

lemma update_session_used:
  assumes "update_session svc s = (svc', r)"
  shows "\<exists>used ok. r = Inr ok \<and> requests_used svc svc' used \<and> (True \<in> set used \<longrightarrow> ok = False)"
proof -
  obtain svc1 r1 where st: "store_session svc s = (svc1, r1)" by (cases "store_session svc s")
  from store_session_used[OF st] obtain used where
    u: "requests_used svc svc1 used" "(\<exists>e. r1 = Inl e) \<longleftrightarrow> True \<in> set used" by blast
  from assms st have "svc' = svc1" "r = Inr (case r1 of Inl e \<Rightarrow> False | Inr x \<Rightarrow> True)"
    by (auto simp: update_session_def split: sum.splits)
  with u show ?thesis by (intro exI[of _ used]) (auto split: sum.splits)
qed

lemma get_session_try_used:
  assumes "get_session_try svc now sid uid = (svc', r)"
  shows "\<exists>used. requests_used svc svc' used \<and> (True \<in> set used \<longrightarrow> r = Inr None \<or> (\<exists>e. r = Inl e))"
proof -
  obtain svc1 d where g: "get_session_from_db svc sid = (svc1, d)"
    by (cases "get_session_from_db svc sid")
  from get_session_from_db_used[OF g] obtain u1 where
    u1: "requests_used svc svc1 u1" "True \<in> set u1 \<longrightarrow> d = None" by blast
  show ?thesis
  proof (cases "\<exists>session. d = Some session \<and> Session_from_dict now session = Inr session
                  \<and> user_id session = uid \<and> is_expired now session (session_timeout_hours svc1)")
    case True
    then obtain session where s: "d = Some session" "Session_from_dict now session = Inr session"
      "user_id session = uid" "is_expired now session (session_timeout_hours svc1)" by blast
    obtain svc2 r2 where st: "store_session svc1 (session\<lparr>status := EXPIRED\<rparr>) = (svc2, r2)"
      by (cases "store_session svc1 (session\<lparr>status := EXPIRED\<rparr>)")
    from store_session_used[OF st] obtain u2 where
      u2: "requests_used svc1 svc2 u2" by blast
    from assms g s st have "svc' = svc2" "r = Inr None \<or> (\<exists>e. r = Inl e)"
      by (auto simp: get_session_try_def split: sum.splits)
    with requests_used_trans[OF u1(1) u2] show ?thesis by blast
  next
    case False
    with assms g have "svc' = svc1" "d = None \<longrightarrow> r = Inr None"
      by (auto simp: get_session_try_def split: option.splits sum.splits if_splits
               dest: Session_from_dict_same)
    with u1 show ?thesis by blast
  qed
qed


lemma get_session_used:
  assumes "get_session svc now sid uid = (svc', r)"
  shows "\<exists>used found. r = Inr found \<and> requests_used svc svc' used
           \<and> (True \<in> set used \<longrightarrow> found = None)"
proof -
  obtain svc1 r1 where t: "get_session_try svc now sid uid = (svc1, r1)"
    by (cases "get_session_try svc now sid uid")
  from get_session_try_used[OF t] obtain used where
    u: "requests_used svc svc1 used" "True \<in> set used \<longrightarrow> r1 = Inr None \<or> (\<exists>e. r1 = Inl e)"
    by blast
  from assms t have "svc' = svc1" "r = Inr (case r1 of Inl e \<Rightarrow> None | Inr found \<Rightarrow> found)"
    by (auto simp: get_session_def split: sum.splits)
  with u show ?thesis by (intro exI[of _ used]) (auto split: sum.splits)
qed

lemma add_message_to_session_try_used:
  assumes "add_message_to_session_try svc now sid uid message = (svc', r)"
  shows "\<exists>used. requests_used svc svc' used
           \<and> (True \<in> set used \<longrightarrow> r = Inr False \<or> (\<exists>e. r = Inl e))"
proof -
  obtain svc1 r1 where g: "get_session svc now sid uid = (svc1, r1)"
    by (cases "get_session svc now sid uid")
  from get_session_used[OF g] obtain u1 found where
    u1: "r1 = Inr found" "requests_used svc svc1 u1" "True \<in> set u1 \<longrightarrow> found = None" by blast
  show ?thesis
  proof (cases "\<exists>session session1. found = Some session
                  \<and> add_message now session (message\<lparr>m_session_id := sid\<rparr>) = Inr session1")
    case True
    then obtain session session1 where s: "found = Some session"
      "add_message now session (message\<lparr>m_session_id := sid\<rparr>) = Inr session1" by blast
    with u1 have clean: "True \<notin> set u1" by auto
    let ?session2 = "if int (length (conversation_history session1)) > max_conversation_history svc1
                     then session1\<lparr>conversation_history :=
                            py_slice_from (- max_conversation_history svc1)
                              (conversation_history session1)\<rparr>
                     else session1"
    from assms g u1(1) s have up: "update_session svc1 ?session2 = (svc', r)"
      by (simp add: add_message_to_session_try_def Let_def)
    from update_session_used[OF up] obtain u2 ok where
      u2: "r = Inr ok" "requests_used svc1 svc' u2" "True \<in> set u2 \<longrightarrow> ok = False" by blast
    from requests_used_trans[OF u1(2) u2(2)] u2 clean show ?thesis
      by (intro exI[of _ "u1 @ u2"]) auto
  next
    case False
    with assms g u1(1) have "svc' = svc1" "r = Inr False \<or> (\<exists>e. r = Inl e)"
      by (auto simp: add_message_to_session_try_def split: option.splits sum.splits)
    with u1 show ?thesis by blast
  qed
qed

lemma add_message_to_session_used:
  assumes "add_message_to_session svc now sid uid message = (svc', r)"
  shows "\<exists>used ok. r = Inr ok \<and> requests_used svc svc' used \<and> (True \<in> set used \<longrightarrow> ok = False)"
proof -
  obtain svc1 r1 where t: "add_message_to_session_try svc now sid uid message = (svc1, r1)"
    by (cases "add_message_to_session_try svc now sid uid message")
  from add_message_to_session_try_used[OF t] obtain used where
    u: "requests_used svc svc1 used" "True \<in> set used \<longrightarrow> r1 = Inr False \<or> (\<exists>e. r1 = Inl e)"
    by blast
  from assms t have "svc' = svc1" "r = Inr (case r1 of Inl e \<Rightarrow> False | Inr ok \<Rightarrow> ok)"
    by (auto simp: add_message_to_session_def split: sum.splits)
  with u show ?thesis by (intro exI[of _ used]) (auto split: sum.splits)
qed

lemma delete_session_used:
  assumes "delete_session svc now sid uid = (svc', r)"
  shows "\<exists>used ok. r = Inr ok \<and> requests_used svc svc' used \<and> (True \<in> set used \<longrightarrow> ok = False)"
proof -
  obtain svc1 r1 where g: "get_session svc now sid uid = (svc1, r1)"
    by (cases "get_session svc now sid uid")
  from get_session_used[OF g] obtain u1 found where
    u1: "r1 = Inr found" "requests_used svc svc1 u1" "True \<in> set u1 \<longrightarrow> found = None" by blast
  show ?thesis
  proof (cases found)
    case None
    with assms g u1(1) have "svc' = svc1" "r = Inr False"
      by (simp_all add: delete_session_def delete_session_try_def)
    with u1 show ?thesis by blast
  next
    case (Some session)
    with u1 have clean: "True \<notin> set u1" by auto
    obtain svc2 r2 where up: "update_session svc1 (session\<lparr>status := ARCHIVED\<rparr>) = (svc2, r2)"
      by (cases "update_session svc1 (session\<lparr>status := ARCHIVED\<rparr>)")
    from update_session_used[OF up] obtain u2 ok where
      u2: "r2 = Inr ok" "requests_used svc1 svc2 u2" "True \<in> set u2 \<longrightarrow> ok = False" by blast
    from assms g u1(1) Some up u2(1) have "svc' = svc2" "r = Inr ok"
      by (simp_all add: delete_session_def delete_session_try_def)
    with requests_used_trans[OF u1(2) u2(2)] u2 clean show ?thesis
      by (intro exI[of _ "u1 @ u2"]) auto
  qed
qed

lemma list_user_sessions_loop_used:
  "list_user_sessions_loop svc now active_only ds acc = (svc', r) \<Longrightarrow>
     \<exists>used. requests_used svc svc' used \<and> (True \<in> set used \<longrightarrow> (\<exists>e. r = Inl e))"
proof (induction ds arbitrary: svc acc)
  case Nil
  then have "svc' = svc" by simp
  then show ?case using requests_used_refl[of svc] by (intro exI[of _ "[]"]) simp
next
  case (Cons d ds)
  show ?case
  proof (cases "Session_from_dict now d")
    case (Inl e)
    with Cons.prems have "svc' = svc" by simp
    then show ?thesis using requests_used_refl[of svc] by (intro exI[of _ "[]"]) simp
  next
    case (Inr session)
    show ?thesis
    proof (cases "is_expired now session (session_timeout_hours svc)")
      case False
      with Cons.prems Inr have
        "\<exists>acc'. list_user_sessions_loop svc now active_only ds acc' = (svc', r)"
        by (auto split: if_splits)
      then obtain acc' where "list_user_sessions_loop svc now active_only ds acc' = (svc', r)" ..
      from Cons.IH[OF this] show ?thesis .
    next
      case True
      obtain svc1 r1 where st: "store_session svc (session\<lparr>status := EXPIRED\<rparr>) = (svc1, r1)"
        by (cases "store_session svc (session\<lparr>status := EXPIRED\<rparr>)")
      from store_session_used[OF st] obtain u1 where
        u1: "requests_used svc svc1 u1" "(\<exists>e. r1 = Inl e) \<longleftrightarrow> True \<in> set u1" by blast
      show ?thesis
      proof (cases r1)
        case (Inl e)
        with Cons.prems Inr True st have "svc' = svc1" "\<exists>e. r = Inl e" by auto
        with u1 show ?thesis by blast
      next
        case (Inr u)
        with Cons.prems \<open>Session_from_dict now d = Inr session\<close> True st have
          "\<exists>acc'. list_user_sessions_loop svc1 now active_only ds acc' = (svc', r)"
          by (auto split: if_splits)
        then obtain acc' where "list_user_sessions_loop svc1 now active_only ds acc' = (svc', r)" ..
        from Cons.IH[OF this] obtain u2 where
          u2: "requests_used svc1 svc' u2" "True \<in> set u2 \<longrightarrow> (\<exists>e. r = Inl e)" by blast
        from Inr u1 have "True \<notin> set u1" by auto
        with requests_used_trans[OF u1(1) u2(1)] u2 show ?thesis
          by (intro exI[of _ "u1 @ u2"]) auto
      qed
    qed
  qed
qed

lemma list_user_sessions_used:
  assumes "list_user_sessions svc now uid active_only = (svc', r)"
  shows "\<exists>used sessions. r = Inr sessions \<and> requests_used svc svc' used
           \<and> (True \<in> set used \<longrightarrow> sessions = [])"
proof -
  obtain svc1 ds where g: "get_user_sessions_from_db svc uid = (svc1, ds)"
    by (cases "get_user_sessions_from_db svc uid")
  from get_user_sessions_from_db_used[OF g] obtain u1 where
    u1: "requests_used svc svc1 u1" "True \<in> set u1 \<longrightarrow> ds = []" by blast
  obtain svc2 r2 where l: "list_user_sessions_loop svc1 now active_only ds [] = (svc2, r2)"
    by (cases "list_user_sessions_loop svc1 now active_only ds []")
  from list_user_sessions_loop_used[OF l] obtain u2 where
    u2: "requests_used svc1 svc2 u2" "True \<in> set u2 \<longrightarrow> (\<exists>e. r2 = Inl e)" by blast
  have e: "r2 = Inr []" if "ds = []" using l that by simp
  from assms g l have s: "svc' = svc2"
    and r: "r = Inr (case r2 of Inl e \<Rightarrow> [] | Inr ss \<Rightarrow> rev (sort_key last_activity (rev ss)))"
    by (auto simp: list_user_sessions_def list_user_sessions_try_def split: sum.splits)
  have "True \<in> set (u1 @ u2) \<longrightarrow> (case r2 of Inl e \<Rightarrow> [] | Inr ss \<Rightarrow> rev (sort_key last_activity (rev ss))) = []"
    using u1(2) u2(2) e by (auto split: sum.splits)
  with requests_used_trans[OF u1(1) u2(1)] s r show ?thesis by blast
qed

lemma create_session_used:
  assumes "create_session svc now new_id uid kb_id = (svc', r)"
  shows "\<exists>used. requests_used svc svc' used
           \<and> (True \<in> set used \<longrightarrow> r = Inl (HTTPException 500 ''Failed to create session''))"
proof (cases "Session_post_init now
                \<lparr>session_id = new_id, user_id = uid, created_at = now, last_activity = now,
                 knowledge_base_id = kb_id, conversation_history = [], status = ACTIVE\<rparr>")
  case (Inl e)
  with assms have "svc' = svc" by (simp add: create_session_def create_session_try_def)
  then show ?thesis using requests_used_refl[of svc] by (intro exI[of _ "[]"]) simp
next
  case (Inr session)
  obtain svc1 r1 where st: "store_session svc session = (svc1, r1)"
    by (cases "store_session svc session")
  from store_session_used[OF st] obtain used where
    u: "requests_used svc svc1 used" "(\<exists>e. r1 = Inl e) \<longleftrightarrow> True \<in> set used" by blast
  from assms Inr st have "svc' = svc1"
    "(\<exists>e. r1 = Inl e) \<longrightarrow> r = Inl (HTTPException 500 ''Failed to create session'')"
    by (auto simp: create_session_def create_session_try_def split: sum.splits)
  with u show ?thesis by blast
qed

text \<open>
  Claim C6, as stated, fails for \<open>create\<close>: when the table refuses the write,
  \<open>create_session\<close> raises \<open>HTTPException\<close> (status 500), as its docstring says.
\<close>

theorem create_session_raises_counterexample:
  "create_session (scenario_service [] [True]) 1000 ''s2'' ''u1'' None
     = (scenario_service [] [], Inl (HTTPException 500 ''Failed to create session''))"
  by (simp add: create_session_def create_session_try_def Session_post_init_def
                store_session_def put_item_def next_raises_def scenario_service_def)

text \<open>
  Claim C6, amended. \<open>get\<close>, \<open>update\<close>, \<open>append_message\<close>, \<open>list\<close> and \<open>archive\<close>
  never raise, whatever the table does; when a request to the table raised during the
  operation, they return \<open>None\<close>, \<open>False\<close>, \<open>False\<close>, the empty list and \<open>False\<close>.
  \<open>create\<close> is the exception: when its request to the table raised, it raises
  \<open>HTTPException\<close> with status 500.
\<close>

theorem facade_storage_errors:
  "(\<exists>svc' used found. get_session svc now sid uid = (svc', Inr found)
       \<and> requests_used svc svc' used \<and> (True \<in> set used \<longrightarrow> found = None))
   \<and> (\<exists>svc' used ok. update_session svc session = (svc', Inr ok)
       \<and> requests_used svc svc' used \<and> (True \<in> set used \<longrightarrow> ok = False))
   \<and> (\<exists>svc' used ok. add_message_to_session svc now sid uid message = (svc', Inr ok)
       \<and> requests_used svc svc' used \<and> (True \<in> set used \<longrightarrow> ok = False))
   \<and> (\<exists>svc' used sessions. list_user_sessions svc now uid active_only = (svc', Inr sessions)
       \<and> requests_used svc svc' used \<and> (True \<in> set used \<longrightarrow> sessions = []))
   \<and> (\<exists>svc' used ok. delete_session svc now sid uid = (svc', Inr ok)
       \<and> requests_used svc svc' used \<and> (True \<in> set used \<longrightarrow> ok = False))
   \<and> (\<exists>svc' used r. create_session svc now new_id uid kb_id = (svc', r)
       \<and> requests_used svc svc' used
       \<and> (True \<in> set used \<longrightarrow> r = Inl (HTTPException 500 ''Failed to create session'')))"
proof -
  obtain s1 r1 where a1: "get_session svc now sid uid = (s1, r1)"
    by (cases "get_session svc now sid uid")
  obtain s2 r2 where a2: "update_session svc session = (s2, r2)"
    by (cases "update_session svc session")
  obtain s3 r3 where a3: "add_message_to_session svc now sid uid message = (s3, r3)"
    by (cases "add_message_to_session svc now sid uid message")
  obtain s4 r4 where a4: "list_user_sessions svc now uid active_only = (s4, r4)"
    by (cases "list_user_sessions svc now uid active_only")
  obtain s5 r5 where a5: "delete_session svc now sid uid = (s5, r5)"
    by (cases "delete_session svc now sid uid")
  obtain s6 r6 where a6: "create_session svc now new_id uid kb_id = (s6, r6)"
    by (cases "create_session svc now new_id uid kb_id")
  have c1: "\<exists>svc' used found. get_session svc now sid uid = (svc', Inr found)
       \<and> requests_used svc svc' used \<and> (True \<in> set used \<longrightarrow> found = None)"
    using get_session_used[OF a1] a1 by blast
  have c2: "\<exists>svc' used ok. update_session svc session = (svc', Inr ok)
       \<and> requests_used svc svc' used \<and> (True \<in> set used \<longrightarrow> ok = False)"
    using update_session_used[OF a2] a2 by blast
  have c3: "\<exists>svc' used ok. add_message_to_session svc now sid uid message = (svc', Inr ok)
       \<and> requests_used svc svc' used \<and> (True \<in> set used \<longrightarrow> ok = False)"
    using add_message_to_session_used[OF a3] a3 by blast
  have c4: "\<exists>svc' used sessions. list_user_sessions svc now uid active_only = (svc', Inr sessions)
       \<and> requests_used svc svc' used \<and> (True \<in> set used \<longrightarrow> sessions = [])"
    using list_user_sessions_used[OF a4] a4 by blast
  have c5: "\<exists>svc' used ok. delete_session svc now sid uid = (svc', Inr ok)
       \<and> requests_used svc svc' used \<and> (True \<in> set used \<longrightarrow> ok = False)"
    using delete_session_used[OF a5] a5 by blast
  have c6: "\<exists>svc' used r. create_session svc now new_id uid kb_id = (svc', r)
       \<and> requests_used svc svc' used
       \<and> (True \<in> set used \<longrightarrow> r = Inl (HTTPException 500 ''Failed to create session''))"
    using create_session_used[OF a6] a6 by blast
  from c1 c2 c3 c4 c5 c6 show ?thesis by (intro conjI)
qed

theorem facade_storage_errors_witness:
  "requests_used (scenario_service [scenario_session] [True])
       (scenario_service [scenario_session] []) [True]
   \<and> True \<in> set [True]
   \<and> get_session (scenario_service [scenario_session] [True]) 1000 ''s1'' ''u1''
       = (scenario_service [scenario_session] [], Inr None)
   \<and> update_session (scenario_service [scenario_session] [True]) scenario_session
       = (scenario_service [scenario_session] [], Inr False)
   \<and> add_message_to_session (scenario_service [scenario_session] [True]) 1000 ''s1'' ''u1''
         (scenario_message ''m1'' ''one'')
       = (scenario_service [scenario_session] [], Inr False)
   \<and> list_user_sessions (scenario_service [scenario_session] [True]) 1000 ''u1'' True
       = (scenario_service [scenario_session] [], Inr [])
   \<and> delete_session (scenario_service [scenario_session] [True]) 1000 ''s1'' ''u1''
       = (scenario_service [scenario_session] [], Inr False)
   \<and> create_session (scenario_service [scenario_session] [True]) 1000 ''s2'' ''u1'' None
       = (scenario_service [scenario_session] [],
          Inl (HTTPException 500 ''Failed to create session''))"
proof -
  let ?svc = "scenario_service [scenario_session] [True]"
  let ?svc' = "scenario_service [scenario_session] []"
  have u: "requests_used ?svc ?svc' used \<longleftrightarrow> used = [True]" for used
    by (auto simp: requests_used_def scenario_service_def)
  have s1: "fst (get_session ?svc 1000 ''s1'' ''u1'') = ?svc'" by code_simp
  have s2: "fst (update_session ?svc scenario_session) = ?svc'" by code_simp
  have s3: "fst (add_message_to_session ?svc 1000 ''s1'' ''u1'' (scenario_message ''m1'' ''one''))
              = ?svc'" by code_simp
  have s4: "fst (list_user_sessions ?svc 1000 ''u1'' True) = ?svc'" by code_simp
  have s5: "fst (delete_session ?svc 1000 ''s1'' ''u1'') = ?svc'" by code_simp
  have s6: "fst (create_session ?svc 1000 ''s2'' ''u1'' None) = ?svc'" by code_simp
  note t = facade_storage_errors
             [of ?svc 1000 "''s1''" "''u1''" scenario_session "scenario_message ''m1'' ''one''"
                 True "''s2''" None]
  have c1: "get_session ?svc 1000 ''s1'' ''u1'' = (?svc', Inr None)"
    using t[THEN conjunct1] s1 by (auto simp: u)
  have c2: "update_session ?svc scenario_session = (?svc', Inr False)"
    using t[THEN conjunct2, THEN conjunct1] s2 by (auto simp: u)
  have c3: "add_message_to_session ?svc 1000 ''s1'' ''u1'' (scenario_message ''m1'' ''one'')
              = (?svc', Inr False)"
    using t[THEN conjunct2, THEN conjunct2, THEN conjunct1] s3 by (auto simp: u)
  have c4: "list_user_sessions ?svc 1000 ''u1'' True = (?svc', Inr [])"
    using t[THEN conjunct2, THEN conjunct2, THEN conjunct2, THEN conjunct1] s4
    by (auto simp: u)
  have c5: "delete_session ?svc 1000 ''s1'' ''u1'' = (?svc', Inr False)"
    using t[THEN conjunct2, THEN conjunct2, THEN conjunct2, THEN conjunct2, THEN conjunct1] s5
    by (auto simp: u)
  have c6: "create_session ?svc 1000 ''s2'' ''u1'' None
              = (?svc', Inl (HTTPException 500 ''Failed to create session''))"
    using t[THEN conjunct2, THEN conjunct2, THEN conjunct2, THEN conjunct2, THEN conjunct2] s6
    by (auto simp: u)
  have u1: "requests_used ?svc ?svc' [True]" by (simp add: u)
  from u1 c1 c2 c3 c4 c5 c6 show ?thesis by simp
qed

section \<open>The orchestrator and a failed append\<close>

text \<open>
  Claim C5, as stated, fails: \<open>process_user_command\<close> does not look at what
  \<open>add_message_to_session\<close> returns. For the message \<open>weather\<close> sent with the
  unknown session id \<open>s1\<close> to an empty table, a session is created under the new id
  \<open>s2\<close>, the append to \<open>s1\<close> reports failure, and the run goes on: it yields the
  status fragment \<open>Processing your request...\<close> and then what the handler for the
  agent yields. No error fragment is yielded.
\<close>

theorem failed_append_is_ignored_counterexample:
  "snd (add_message_to_session
          (fst (get_or_create_session (scenario_service [] []) 1000 ''s2'' ''s1'' ''u1'' None))
          1000 ''s1'' ''u1''
          \<lparr>message_id = ''m1'', m_session_id = ''s1'', content = ''weather'',
           message_type = USER, m_timestamp = 1000, metadata = [(''user_id'', PStr ''u1'')]\<rparr>)
     = Inr False
   \<and> (case process_user_command scenario_handlers (scenario_service [] [])
              1000 ''s2'' ''m1'' ''s1'' ''weather'' ''u1'' None of
         (svc', responses, raised) \<Rightarrow> (map f_type responses, map f_content responses, raised))
     = ([''status'', ''status''], [''Processing your request...'', ''agent handler''], None)"
  by code_simp

text \<open>
  Claim C5, amended. When the append of the user's message reports failure, the run
  is what it is after a successful append: the status fragment
  \<open>Processing your request...\<close>, followed by the run of the handler that the
  classification of the text selects; the run ends as that handler ends.
\<close>

theorem process_user_command_ignores_append_result:
  assumes "get_or_create_session svc now new_session_id sid uid kb_id = (svc1, Some session)"
    and "Message_post_init now
           \<lparr>message_id = new_message_id, m_session_id = sid, content = user_message,
            message_type = USER, m_timestamp = now, metadata = [(''user_id'', PStr uid)]\<rparr>
         = Inr user_msg"
    and "add_message_to_session svc1 now sid uid user_msg = (svc2, Inr False)"
    and "handlers (classify_command user_message) svc2 session user_message uid
         = (svc3, responses, raised)"
  shows "process_user_command handlers svc now new_session_id new_message_id
           sid user_message uid kb_id
         = (svc3, create_status_response now ''Processing your request...'' # responses, raised)"
  using assms by (simp add: process_user_command_def)

theorem process_user_command_ignores_append_result_witness:
  "get_or_create_session (scenario_service [] []) 1000 ''s2'' ''s1'' ''u1'' None
     = (scenario_service [scenario_session\<lparr>session_id := ''s2'', created_at := 1000,
                                            last_activity := 1000\<rparr>] [],
        Some (scenario_session\<lparr>session_id := ''s2'', created_at := 1000,
                                last_activity := 1000\<rparr>))
   \<and> add_message_to_session
         (scenario_service [scenario_session\<lparr>session_id := ''s2'', created_at := 1000,
                                             last_activity := 1000\<rparr>] [])
         1000 ''s1'' ''u1''
         \<lparr>message_id = ''m1'', m_session_id = ''s1'', content = ''weather'',
          message_type = USER, m_timestamp = 1000, metadata = [(''user_id'', PStr ''u1'')]\<rparr>
     = (scenario_service [scenario_session\<lparr>session_id := ''s2'', created_at := 1000,
                                            last_activity := 1000\<rparr>] [],
        Inr False)
   \<and> classify_command ''weather'' = Agent
   \<and> process_user_command scenario_handlers (scenario_service [] [])
         1000 ''s2'' ''m1'' ''s1'' ''weather'' ''u1'' None
     = (scenario_service [scenario_session\<lparr>session_id := ''s2'', created_at := 1000,
                                            last_activity := 1000\<rparr>] [],
        [create_status_response 1000 ''Processing your request...'',
         create_status_response 0 ''agent handler''],
        None)"
proof -
  let ?s2 = "scenario_session\<lparr>session_id := ''s2'', created_at := 1000, last_activity := 1000\<rparr>"
  let ?svc1 = "scenario_service [?s2] []"
  let ?m = "\<lparr>message_id = ''m1'', m_session_id = ''s1'', content = ''weather'',
            message_type = USER, m_timestamp = 1000, metadata = [(''user_id'', PStr ''u1'')]\<rparr>"
  have g: "get_or_create_session (scenario_service [] []) 1000 ''s2'' ''s1'' ''u1'' None
             = (?svc1, Some ?s2)" by code_simp
  have v: "Message_post_init 1000 ?m = Inr ?m" by code_simp
  have a: "add_message_to_session ?svc1 1000 ''s1'' ''u1'' ?m = (?svc1, Inr False)" by code_simp
  have c: "classify_command ''weather'' = Agent" by code_simp
  have h: "scenario_handlers (classify_command ''weather'') ?svc1 ?s2 ''weather'' ''u1''
             = (?svc1, [create_status_response 0 ''agent handler''], None)"
    unfolding c by (simp add: scenario_handlers_def)
  from process_user_command_ignores_append_result[where handlers = scenario_handlers, OF g v a h]
    g a c show ?thesis by simp
qed

end
